theory Spec2Isabelle
  imports
    Complex_Main
    "HOL-Library.Char_ord"
    "HOL-Library.List_Lexorder"
    "HOL-Library.Option_ord"
    "HOL-Library.Product_Lexorder"
begin

section \<open>The book catalogue service (BookService)\<close>

text \<open>
  A shallow embedding of the class \<open>BookService\<close>: \<open>findBook\<close>, \<open>findAllBooks\<close>,
  \<open>createBook\<close>, \<open>updateBook\<close>, \<open>softDeleteBook\<close>, \<open>deleteBook\<close> and \<open>countBooks\<close>.
  Every method is a round trip to the Prisma client wrapped in \<open>try\<close>/\<open>catch\<close>.
  An exception is a value of type \<open>exn\<close>, a method returns \<open>exn + 'a\<close> (\<open>Inl\<close> is a
  throw), and a method that writes returns the world it leaves behind as well, also
  when it throws. JavaScript numbers are modelled as mathematical integers: page
  numbers and row counts stay far below \<open>2 ^ 53\<close>, where the arithmetic used here is
  exact.
\<close>

subsection \<open>Exceptions\<close>

text \<open>
  The two NestJS exceptions the service throws, and \<open>Error\<close> for every other thrown
  value: an error of the Prisma client or of \<open>fs\<close>. A plain \<open>Error\<close> is never an
  instance of \<open>NotFoundException\<close>.
\<close>

datatype exn =
    NotFoundException string
  | InternalServerErrorException string
  | Error string

fun message :: "exn \<Rightarrow> string" where
  "message (NotFoundException m) = m"
| "message (InternalServerErrorException m) = m"
| "message (Error m) = m"

fun instanceof_NotFoundException :: "exn \<Rightarrow> bool" where
  "instanceof_NotFoundException (NotFoundException m) = True"
| "instanceof_NotFoundException (InternalServerErrorException m) = False"
| "instanceof_NotFoundException (Error m) = False"

subsection \<open>Rows and the world outside the service\<close>

text \<open>
  Modelled from the spec: the Prisma schema and \<open>PrismaService\<close> are not among the
  sources. A row has every field the service names: in its queries \<open>id\<close>,
  \<open>deleted_at\<close>, \<open>id_category\<close>, \<open>product_name\<close> and \<open>final_price\<close>, in the data it
  inserts \<open>title\<close>, \<open>author\<close>, \<open>image\<close> and the two category relations. The fields
  \<open>product_name\<close> and \<open>title\<close> are two fields of the one model; \<open>createBook\<close> writes
  neither \<open>product_name\<close> nor \<open>final_price\<close>, so both can be null. Following the
  specification, \<open>id_category\<close> is the foreign key of the main category, and a
  timestamp is an integer.
\<close>

record bookCategory =
  cat_id :: string
  cat_deleted_at :: "int option"

record book =
  book_id :: string
  title :: string
  author :: string
  book_image :: "string option"
  product_name :: "string option"
  id_category :: string
  id_sub_category :: "string option"
  final_price :: "int option"
  deleted_at :: "int option"

text \<open>
  Modelled from the spec: the relational store and the blob store of section 6. The
  world is the two tables, in the store's default order, and the upload directory
  \<open>Books/Image\<close> of the file system, \<open>None\<close> while the directory does not exist,
  otherwise the files in it by name. What a sort leaves to the database is part of
  the world as well: whether null is the greatest value or the least, and the order
  \<open>tie_break\<close> in which it returns rows that are equal in the sort key.
\<close>

record world =
  books :: "book list"
  categories :: "bookCategory list"
  upload_dir :: "(string \<rightharpoonup> string) option"
  nulls_largest :: bool
  tie_break :: "book \<Rightarrow> nat"

text \<open>
  The calls that leave the process. Each of them can throw for reasons outside the
  tables (connectivity, a constraint of the database, a full disk): \<open>faults c\<close> is
  the message of the error the call \<open>c\<close> throws, \<open>None\<close> when it goes through.
\<close>

datatype store_call =
    Book_findUnique string
  | Book_findMany
  | Book_count
  | Book_create
  | Book_update string
  | Book_delete string
  | BookCategory_findUnique string
  | Fs_mkdirSync
  | Fs_writeFileSync string

type_synonym faults = "store_call \<Rightarrow> string option"

subsection \<open>The Prisma client\<close>

text \<open>
  \<open>PrismaService\<close> is not among the sources. Its operations are modelled from the
  store interface of section 6 of the specification (findUnique, findMany, count,
  create, update, delete), for the queries the service sends.
\<close>

text \<open>
  Modelled from the spec: the filter of a query. A \<open>where\<close> clause of the service
  has at most three keys: \<open>id\<close>, \<open>deleted_at: null\<close> and \<open>id_category\<close>. An absent key
  does not restrict.
\<close>

record book_where =
  where_id :: "string option"
  where_deleted_at_null :: bool
  where_id_category :: "string option"

definition matches :: "book_where \<Rightarrow> book \<Rightarrow> bool" where
  "matches wh b =
     ((case where_id wh of None \<Rightarrow> True | Some i \<Rightarrow> book_id b = i) \<and>
      (if where_deleted_at_null wh then deleted_at b = None else True) \<and>
      (case where_id_category wh of None \<Rightarrow> True | Some c \<Rightarrow> id_category b = c))"

text \<open>Modelled from the spec: the category with a given identifier, if there is one.\<close>

definition find_category :: "world \<Rightarrow> string \<Rightarrow> bookCategory option" where
  "find_category w i = find (\<lambda>c. cat_id c = i) (categories w)"

text \<open>
  Modelled from the spec: a row with the relations an \<open>include\<close> asked for (\<open>None\<close>:
  not asked for, or null).
\<close>

record book_with_categories =
  row :: book
  mainCategory :: "bookCategory option"
  subCategory :: "bookCategory option"

definition include_categories :: "world \<Rightarrow> bool \<Rightarrow> bool \<Rightarrow> book \<Rightarrow> book_with_categories" where
  "include_categories w inc_main inc_sub b =
     \<lparr>row = b,
      mainCategory = (if inc_main then find_category w (id_category b) else None),
      subCategory =
        (if inc_sub
         then (case id_sub_category b of None \<Rightarrow> None | Some s \<Rightarrow> find_category w s)
         else None)\<rparr>"

text \<open>
  Modelled from the spec: \<open>prisma.book.findUnique\<close>, the first row that matches the
  filter, or null.
\<close>

definition book_findUnique ::
  "faults \<Rightarrow> world \<Rightarrow> book_where \<Rightarrow> bool \<Rightarrow> bool \<Rightarrow> exn + book_with_categories option" where
  "book_findUnique faults w wh inc_main inc_sub =
     (case faults (Book_findUnique (case where_id wh of None \<Rightarrow> [] | Some i \<Rightarrow> i)) of
        Some m \<Rightarrow> Inl (Error m)
      | None \<Rightarrow>
          Inr (map_option (include_categories w inc_main inc_sub)
                 (find (matches wh) (books w))))"

text \<open>
  Modelled from the spec: the place of a value that can be null in the order of the
  database, null being its greatest value or its least.
\<close>

definition sort_value :: "world \<Rightarrow> 'a option \<Rightarrow> nat \<times> 'a option" where
  "sort_value w v =
     (case v of
        None \<Rightarrow> (if nulls_largest w then 2 else 0, None)
      | Some x \<Rightarrow> (1, Some x))"

text \<open>Modelled from the spec: a descending sort is the ascending one backwards.\<close>

definition direction :: "string \<Rightarrow> 'a list \<Rightarrow> 'a list" where
  "direction dir xs = (if dir = ''desc'' then rev xs else xs)"

text \<open>
  Modelled from the spec: the sort of \<open>findMany\<close>. \<open>orderBy\<close> is a field name and a
  direction, both strings as the service passes them. The client rejects a
  direction other than \<open>asc\<close> and \<open>desc\<close> and a field the model does not have. The
  rows come back sorted by the field named, by \<open>product_name\<close> for \<open>product_name\<close>;
  among rows with equal values the database decides.
\<close>

definition order_rows ::
  "world \<Rightarrow> (string \<times> string) option \<Rightarrow> book list \<Rightarrow> string + book list" where
  "order_rows w order_by bs =
     (case order_by of
        None \<Rightarrow> Inr bs
      | Some (field, dir) \<Rightarrow>
          if dir \<noteq> ''asc'' \<and> dir \<noteq> ''desc'' then Inl ''Invalid value for argument orderBy''
          else if field = ''product_name''
          then Inr (direction dir
                 (sort_key (\<lambda>b. (sort_value w (product_name b), tie_break w b)) bs))
          else if field = ''final_price''
          then Inr (direction dir
                 (sort_key (\<lambda>b. (sort_value w (final_price b), tie_break w b)) bs))
          else if field = ''id_category''
          then Inr (direction dir (sort_key (\<lambda>b. (id_category b, tie_break w b)) bs))
          else Inl ''Unknown argument in orderBy'')"

text \<open>
  Modelled from the spec: \<open>skip\<close> and \<open>take\<close> of \<open>findMany\<close>. A negative \<open>skip\<close> is
  rejected, a negative \<open>take\<close> counts from the end of the ordered rows.
\<close>

definition page_rows :: "int \<Rightarrow> int \<Rightarrow> 'a list \<Rightarrow> 'a list" where
  "page_rows skip_n take_n xs =
     (if 0 \<le> take_n then take (nat take_n) (drop (nat skip_n) xs)
      else rev (take (nat (- take_n)) (drop (nat skip_n) (rev xs))))"

text \<open>
  Modelled from the spec: \<open>prisma.book.findMany\<close> with \<open>include: { mainCategory: true }\<close>,
  the matching rows, ordered, then cut by \<open>skip\<close> and \<open>take\<close>.
\<close>

record findMany_args =
  fm_where :: book_where
  fm_skip :: int
  fm_take :: int
  fm_orderBy :: "(string \<times> string) option"

definition book_findMany ::
  "faults \<Rightarrow> world \<Rightarrow> findMany_args \<Rightarrow> exn + book_with_categories list" where
  "book_findMany faults w args =
     (case faults Book_findMany of
        Some m \<Rightarrow> Inl (Error m)
      | None \<Rightarrow>
          if fm_skip args < 0 then Inl (Error ''Invalid value for skip argument'')
          else
            (case order_rows w (fm_orderBy args) (filter (matches (fm_where args)) (books w)) of
               Inl m \<Rightarrow> Inl (Error m)
             | Inr ordered \<Rightarrow>
                 Inr (map (include_categories w True False)
                        (page_rows (fm_skip args) (fm_take args) ordered))))"

text \<open>Modelled from the spec: \<open>prisma.book.count\<close>, the number of matching rows.\<close>

definition book_count :: "faults \<Rightarrow> world \<Rightarrow> book_where \<Rightarrow> exn + nat" where
  "book_count faults w wh =
     (case faults Book_count of
        Some m \<Rightarrow> Inl (Error m)
      | None \<Rightarrow> Inr (length (filter (matches wh) (books w))))"

subsection \<open>findBook\<close>

definition findBook :: "faults \<Rightarrow> world \<Rightarrow> string \<Rightarrow> exn + book_with_categories" where
  "findBook faults w i =
     (case book_findUnique faults w
             \<lparr>where_id = Some i, where_deleted_at_null = True, where_id_category = None\<rparr>
             True True of
        Inl error \<Rightarrow> Inl (InternalServerErrorException ''An error occurred while fetching book.'')
      | Inr None \<Rightarrow> Inl (NotFoundException ''Book not found!'')
      | Inr (Some b) \<Rightarrow> Inr b)"

subsection \<open>countBooks\<close>

definition countBooks :: "faults \<Rightarrow> world \<Rightarrow> exn + nat" where
  "countBooks faults w =
     (case book_count faults w
             \<lparr>where_id = None, where_deleted_at_null = True, where_id_category = None\<rparr> of
        Inl error \<Rightarrow> Inl (InternalServerErrorException ''An error occurred while counting books.'')
      | Inr n \<Rightarrow> Inr n)"

subsection \<open>findAllBooks\<close>

text \<open>
  \<open>Math.ceil(totalBooks / perPage)\<close> on a row count and an integer: the quotient is
  \<open>NaN\<close> or \<open>Infinity\<close> when \<open>perPage\<close> is zero.
\<close>

datatype js_number = Num int | Infinity | NaN

definition math_ceil_div :: "nat \<Rightarrow> int \<Rightarrow> js_number" where
  "math_ceil_div totalBooks perPage =
     (if perPage = 0 then (if totalBooks = 0 then NaN else Infinity)
      else Num \<lceil>(of_nat totalBooks :: rat) / of_int perPage\<rceil>)"

text \<open>The \<open>where\<close> clause of lines 53 to 57 and the \<open>switch\<close> of lines 59 to 75.\<close>

definition whereClause :: "string \<Rightarrow> book_where" where
  "whereClause categoryId =
     (if categoryId \<noteq> ''none''
      then \<lparr>where_id = None, where_deleted_at_null = True, where_id_category = Some categoryId\<rparr>
      else \<lparr>where_id = None, where_deleted_at_null = True, where_id_category = None\<rparr>)"

definition orderBy :: "string \<Rightarrow> string \<Rightarrow> (string \<times> string) option" where
  "orderBy filter_key sortOrder =
     (if filter_key = ''none'' then None
      else if filter_key = ''name'' then Some (''product_name'', sortOrder)
      else if filter_key = ''price'' then Some (''final_price'', sortOrder)
      else if filter_key = ''category'' then Some (''id_category'', sortOrder)
      else None)"

definition findMany_query :: "int \<Rightarrow> int \<Rightarrow> string \<Rightarrow> string \<Rightarrow> string \<Rightarrow> findMany_args" where
  "findMany_query page perPage filter_key sortOrder categoryId =
     (let offset = (page - 1) * perPage
      in \<lparr>fm_where = whereClause categoryId,
          fm_skip = offset,
          fm_take = perPage,
          fm_orderBy = orderBy filter_key sortOrder\<rparr>)"

text \<open>
  The object \<open>{ totalBooks, totalPages, ...books }\<close>: the two totals, \<open>None\<close> while
  undefined, and the rows of the page (the spread puts them under the keys
  \<open>0\<close>, \<open>1\<close>, ...).
\<close>

record book_page =
  totalBooks :: "nat option"
  totalPages :: "js_number option"
  rows :: "book_with_categories list"

text \<open>
  A \<open>return\<close> in a \<open>finally\<close> block replaces the completion of the \<open>try\<close> and of the
  \<open>catch\<close> before it, a pending \<open>throw\<close> included.
\<close>

definition finally_return :: "exn option \<Rightarrow> 'a \<Rightarrow> exn + 'a" where
  "finally_return pending v = Inr v"

definition findAllBooks ::
  "faults \<Rightarrow> world \<Rightarrow> int \<Rightarrow> int \<Rightarrow> string \<Rightarrow> string \<Rightarrow> string \<Rightarrow> exn + book_page" where
  "findAllBooks faults w page perPage filter_key sortOrder categoryId =
     (case book_findMany faults w (findMany_query page perPage filter_key sortOrder categoryId) of
        Inl error \<Rightarrow>
          Inl (InternalServerErrorException ''An error occurred while fetching books.'')
      | Inr found \<Rightarrow>
          if length found = 0 then Inl (NotFoundException ''No product was found!'')
          else
            (case countBooks faults w of
               Inr n \<Rightarrow>
                 finally_return None
                   \<lparr>totalBooks = Some n,
                    totalPages = Some (math_ceil_div n perPage),
                    rows = found\<rparr>
             | Inl error \<Rightarrow>
                 finally_return
                   (Some (InternalServerErrorException
                            (''Error while counting products! Error:'' @ message error)))
                   \<lparr>totalBooks = None, totalPages = None, rows = found\<rparr>))"

subsection \<open>Writes of the Prisma client and of the file system\<close>

text \<open>
  Modelled from the spec: \<open>prisma.book.update\<close> with \<open>where: { id }\<close>. It changes the
  rows with that identifier and throws when there is none.
\<close>

definition book_update ::
  "faults \<Rightarrow> world \<Rightarrow> string \<Rightarrow> (book \<Rightarrow> book) \<Rightarrow> (exn + book) \<times> world" where
  "book_update faults w i patch =
     (case faults (Book_update i) of
        Some m \<Rightarrow> (Inl (Error m), w)
      | None \<Rightarrow>
          (case find (\<lambda>b. book_id b = i) (books w) of
             None \<Rightarrow> (Inl (Error ''Record to update not found.''), w)
           | Some b \<Rightarrow>
               (Inr (patch b),
                w\<lparr>books := map (\<lambda>b. if book_id b = i then patch b else b) (books w)\<rparr>)))"

text \<open>
  Modelled from the spec: \<open>prisma.book.delete\<close> with \<open>where: { id }\<close>. It removes the
  rows with that identifier and throws when there is none.
\<close>

definition book_delete :: "faults \<Rightarrow> world \<Rightarrow> string \<Rightarrow> (exn + book) \<times> world" where
  "book_delete faults w i =
     (case faults (Book_delete i) of
        Some m \<Rightarrow> (Inl (Error m), w)
      | None \<Rightarrow>
          (case find (\<lambda>b. book_id b = i) (books w) of
             None \<Rightarrow> (Inl (Error ''Record to delete does not exist.''), w)
           | Some b \<Rightarrow> (Inr b, w\<lparr>books := filter (\<lambda>b. book_id b \<noteq> i) (books w)\<rparr>)))"

text \<open>Modelled from the spec: \<open>prisma.bookCategory.findUnique\<close> with \<open>where: { id }\<close>.\<close>

definition bookCategory_findUnique ::
  "faults \<Rightarrow> world \<Rightarrow> string \<Rightarrow> exn + bookCategory option" where
  "bookCategory_findUnique faults w i =
     (case faults (BookCategory_findUnique i) of
        Some m \<Rightarrow> Inl (Error m)
      | None \<Rightarrow> Inr (find_category w i))"

text \<open>
  Modelled from the spec: \<open>prisma.book.create\<close>. It inserts a row under the
  identifier the database generates, \<open>new_id\<close>, and throws on a duplicate key and on
  a \<open>connect\<close> to a category that does not exist. A new row is active and has
  neither a product name nor a price yet.
\<close>

record book_create_data =
  data_title :: string
  data_author :: string
  data_image :: "string option"
  data_mainCategory :: string
  data_subCategory :: "string option"

definition book_create ::
  "faults \<Rightarrow> world \<Rightarrow> string \<Rightarrow> book_create_data \<Rightarrow> (exn + book) \<times> world" where
  "book_create faults w new_id d =
     (case faults Book_create of
        Some m \<Rightarrow> (Inl (Error m), w)
      | None \<Rightarrow>
          if new_id \<in> set (map book_id (books w))
          then (Inl (Error ''Unique constraint failed''), w)
          else if find_category w (data_mainCategory d) = None
          then (Inl (Error ''No record was found for a connect''), w)
          else if (case data_subCategory d of None \<Rightarrow> False | Some s \<Rightarrow> find_category w s = None)
          then (Inl (Error ''No record was found for a connect''), w)
          else
            (let b = \<lparr>book_id = new_id,
                      title = data_title d,
                      author = data_author d,
                      book_image = data_image d,
                      product_name = None,
                      id_category = data_mainCategory d,
                      id_sub_category = data_subCategory d,
                      final_price = None,
                      deleted_at = None\<rparr>
             in (Inr b, w\<lparr>books := books w @ [b]\<rparr>)))"

text \<open>
  Modelled from the spec: the blob store, written through
  \<open>fs.mkdirSync(uploadPath, { recursive: true })\<close>, which leaves an existing
  directory as it is.
\<close>

definition fs_mkdirSync :: "faults \<Rightarrow> world \<Rightarrow> (exn + unit) \<times> world" where
  "fs_mkdirSync faults w =
     (case faults Fs_mkdirSync of
        Some m \<Rightarrow> (Inl (Error m), w)
      | None \<Rightarrow>
          (Inr (),
           w\<lparr>upload_dir := Some (case upload_dir w of None \<Rightarrow> Map.empty | Some d \<Rightarrow> d)\<rparr>))"

text \<open>
  Modelled from the spec: \<open>fs.writeFileSync(path.join(uploadPath, name), buffer)\<close>
  creates the file or replaces its content.
\<close>

definition fs_writeFileSync :: "faults \<Rightarrow> world \<Rightarrow> string \<Rightarrow> string \<Rightarrow> (exn + unit) \<times> world" where
  "fs_writeFileSync faults w name content =
     (case faults (Fs_writeFileSync name) of
        Some m \<Rightarrow> (Inl (Error m), w)
      | None \<Rightarrow>
          (case upload_dir w of
             None \<Rightarrow> (Inl (Error ''ENOENT: no such file or directory''), w)
           | Some d \<Rightarrow> (Inr (), w\<lparr>upload_dir := Some (d(name \<mapsto> content))\<rparr>)))"

subsection \<open>createBook\<close>

text \<open>
  Modelled from the spec: \<open>CreateBookDto\<close> and the uploaded file are declared outside
  the sources; these are the fields \<open>createBook\<close> reads.
\<close>

record createBookDto =
  dto_title :: string
  dto_author :: string
  dto_categoryId :: string
  dto_subCategoryId :: "string option"

record multer_file =
  originalname :: string
  buffer :: string

text \<open>An optional string in a condition: \<open>undefined\<close> and the empty string are falsy.\<close>

definition truthy :: "string option \<Rightarrow> string option" where
  "truthy s = (case s of None \<Rightarrow> None | Some x \<Rightarrow> if x = [] then None else Some x)"

text \<open>Lines 113 to 130, before the \<open>try\<close>: the image goes to the upload directory.\<close>

definition createBook_image ::
  "faults \<Rightarrow> world \<Rightarrow> multer_file option \<Rightarrow> (exn + string option) \<times> world" where
  "createBook_image faults w bookImage =
     (case bookImage of
        None \<Rightarrow> (Inr None, w)
      | Some f \<Rightarrow>
          (case (if upload_dir w = None then fs_mkdirSync faults w else (Inr (), w)) of
             (Inl e, w1) \<Rightarrow> (Inl e, w1)
           | (Inr u, w1) \<Rightarrow>
               (case fs_writeFileSync faults w1 (originalname f) (buffer f) of
                  (Inl e, w2) \<Rightarrow> (Inl e, w2)
                | (Inr u, w2) \<Rightarrow> (Inr (Some (originalname f)), w2))))"

text \<open>Lines 133 to 166, the body of the \<open>try\<close>.\<close>

definition createBook_try ::
  "faults \<Rightarrow> world \<Rightarrow> string \<Rightarrow> createBookDto \<Rightarrow> string option \<Rightarrow> (exn + book) \<times> world" where
  "createBook_try faults w new_id bookData imageUrl =
     (case bookCategory_findUnique faults w (dto_categoryId bookData) of
        Inl e \<Rightarrow> (Inl e, w)
      | Inr None \<Rightarrow>
          (Inl (NotFoundException
                  (''Main category with ID '' @ dto_categoryId bookData @ '' not found'')), w)
      | Inr (Some main_cat) \<Rightarrow>
          (case (case truthy (dto_subCategoryId bookData) of
                   None \<Rightarrow> Inr ()
                 | Some s \<Rightarrow>
                     (case bookCategory_findUnique faults w s of
                        Inl e \<Rightarrow> Inl e
                      | Inr None \<Rightarrow>
                          Inl (NotFoundException (''Sub category with ID '' @ s @ '' not found''))
                      | Inr (Some sub_cat) \<Rightarrow> Inr ())) of
             Inl e \<Rightarrow> (Inl e, w)
           | Inr u \<Rightarrow>
               book_create faults w new_id
                 \<lparr>data_title = dto_title bookData,
                  data_author = dto_author bookData,
                  data_image = truthy imageUrl,
                  data_mainCategory = dto_categoryId bookData,
                  data_subCategory = truthy (dto_subCategoryId bookData)\<rparr>))"

definition createBook ::
  "faults \<Rightarrow> world \<Rightarrow> string \<Rightarrow> createBookDto \<Rightarrow> multer_file option \<Rightarrow> (exn + book) \<times> world" where
  "createBook faults w new_id bookData bookImage =
     (case createBook_image faults w bookImage of
        (Inl e, w1) \<Rightarrow> (Inl e, w1)
      | (Inr imageUrl, w1) \<Rightarrow>
          (case createBook_try faults w1 new_id bookData imageUrl of
             (Inr b, w2) \<Rightarrow> (Inr b, w2)
           | (Inl error, w2) \<Rightarrow>
               if instanceof_NotFoundException error then (Inl error, w2)
               else (Inl (InternalServerErrorException ''Failed to create a new book!''), w2)))"

subsection \<open>updateBook, softDeleteBook and deleteBook\<close>

text \<open>The fields of \<open>UpdateBookDto\<close> that are set, as the change they make to a row.\<close>

definition updateBook ::
  "faults \<Rightarrow> world \<Rightarrow> string \<Rightarrow> (book \<Rightarrow> book) \<Rightarrow> (exn + book) \<times> world" where
  "updateBook faults w i bookData =
     (case book_update faults w i bookData of
        (Inl error, w1) \<Rightarrow> (Inl (InternalServerErrorException ''Failed to update a book!''), w1)
      | (Inr b, w1) \<Rightarrow> (Inr b, w1))"

text \<open>\<open>now\<close> is the value of \<open>new Date()\<close>.\<close>

definition softDeleteBook :: "faults \<Rightarrow> world \<Rightarrow> int \<Rightarrow> string \<Rightarrow> (exn + book) \<times> world" where
  "softDeleteBook faults w now i =
     (case book_update faults w i (\<lambda>b. b\<lparr>deleted_at := Some now\<rparr>) of
        (Inl error, w1) \<Rightarrow> (Inl (InternalServerErrorException ''Failed to soft-delete a book!''), w1)
      | (Inr b, w1) \<Rightarrow> (Inr b, w1))"

definition deleteBook :: "faults \<Rightarrow> world \<Rightarrow> string \<Rightarrow> (exn + book) \<times> world" where
  "deleteBook faults w i =
     (case book_delete faults w i of
        (Inl error, w1) \<Rightarrow> (Inl (InternalServerErrorException ''Failed to hard-delete a book!''), w1)
      | (Inr b, w1) \<Rightarrow> (Inr b, w1))"

subsection \<open>A small catalogue\<close>

text \<open>
  Two categories and three books, the second one soft-deleted, in a database where
  null is the least value and in one where it is the greatest; stores that fail at
  one call; a create request with its cover image.
\<close>

definition no_faults :: faults where
  "no_faults = (\<lambda>c. None)"

definition count_fault :: faults where
  "count_fault = (\<lambda>c. if c = Book_count then Some ''connection lost'' else None)"

definition fetch_fault :: faults where
  "fetch_fault = (\<lambda>c. if c = Book_findUnique ''b1'' then Some ''connection lost'' else None)"

definition lookup_fault :: faults where
  "lookup_fault =
     (\<lambda>c. if c = BookCategory_findUnique ''c1'' then Some ''connection lost'' else None)"

definition sub_lookup_fault :: faults where
  "sub_lookup_fault =
     (\<lambda>c. if c = BookCategory_findUnique ''c2'' then Some ''connection lost'' else None)"

definition insert_fault :: faults where
  "insert_fault = (\<lambda>c. if c = Book_create then Some ''connection lost'' else None)"

definition mkdir_fault :: faults where
  "mkdir_fault = (\<lambda>c. if c = Fs_mkdirSync then Some ''EACCES: permission denied'' else None)"

definition disk_full :: faults where
  "disk_full =
     (\<lambda>c. if c = Fs_writeFileSync ''emma.png'' then Some ''ENOSPC: no space left on device''
          else None)"

definition cat1 :: bookCategory where
  "cat1 = \<lparr>cat_id = ''c1'', cat_deleted_at = None\<rparr>"

definition cat2 :: bookCategory where
  "cat2 = \<lparr>cat_id = ''c2'', cat_deleted_at = None\<rparr>"

definition book1 :: book where
  "book1 = \<lparr>book_id = ''b1'', title = ''Emma'', author = ''Austen'', book_image = None,
            product_name = Some ''Austen novel'', id_category = ''c1'', id_sub_category = None, final_price = Some 12,
            deleted_at = None\<rparr>"

definition book2 :: book where
  "book2 = \<lparr>book_id = ''b2'', title = ''Dune'', author = ''Herbert'', book_image = None,
            product_name = Some ''Desert saga'', id_category = ''c1'', id_sub_category = Some ''c2'', final_price = Some 9,
            deleted_at = Some 100\<rparr>"

definition book3 :: book where
  "book3 = \<lparr>book_id = ''b3'', title = ''Ajax'', author = ''Sophocles'', book_image = None,
            product_name = Some ''Greek play'', id_category = ''c2'', id_sub_category = None, final_price = None,
            deleted_at = None\<rparr>"

definition shop :: world where
  "shop = \<lparr>books = [book1, book2, book3], categories = [cat1, cat2], upload_dir = None,
           nulls_largest = False, tie_break = (\<lambda>b. 0)\<rparr>"

definition shop_nulls_last :: world where
  "shop_nulls_last =
     \<lparr>books = [book1, book2, book3], categories = [cat1, cat2], upload_dir = None,
      nulls_largest = True, tie_break = (\<lambda>b. 0)\<rparr>"

definition closed_shop :: world where
  "closed_shop = \<lparr>books = [book2], categories = [cat1, cat2], upload_dir = None,
                  nulls_largest = False, tie_break = (\<lambda>b. 0)\<rparr>"

definition shop_without_emma :: world where
  "shop_without_emma =
     \<lparr>books = [book1\<lparr>deleted_at := Some 7\<rparr>, book2, book3], categories = [cat1, cat2],
      upload_dir = None, nulls_largest = False, tie_break = (\<lambda>b. 0)\<rparr>"

definition shop_minus_emma :: world where
  "shop_minus_emma =
     \<lparr>books = [book2, book3], categories = [cat1, cat2], upload_dir = None,
      nulls_largest = False, tie_break = (\<lambda>b. 0)\<rparr>"

definition cover :: multer_file where
  "cover = \<lparr>originalname = ''emma.png'', buffer = ''PNG''\<rparr>"

definition new_book :: "string \<Rightarrow> string option \<Rightarrow> createBookDto" where
  "new_book main sub =
     \<lparr>dto_title = ''Persuasion'', dto_author = ''Austen'', dto_categoryId = main,
      dto_subCategoryId = sub\<rparr>"

lemmas catalogue_defs =
  no_faults_def count_fault_def fetch_fault_def lookup_fault_def sub_lookup_fault_def
  insert_fault_def mkdir_fault_def disk_full_def cat1_def cat2_def book1_def book2_def
  book3_def shop_def shop_nulls_last_def closed_shop_def cover_def new_book_def

lemmas listing_defs =
  findAllBooks_def book_findMany_def findMany_query_def whereClause_def orderBy_def
  order_rows_def sort_value_def direction_def page_rows_def matches_def
  include_categories_def find_category_def countBooks_def book_count_def finally_return_def

lemmas createBook_defs =
  createBook_def createBook_image_def createBook_try_def bookCategory_findUnique_def
  book_create_def fs_mkdirSync_def fs_writeFileSync_def truthy_def find_category_def

lemmas findBook_defs =
  findBook_def book_findUnique_def matches_def include_categories_def find_category_def

section \<open>Properties\<close>

subsection \<open>What the store hands back\<close>

lemma order_rows_set:
  "order_rows w ob bs = Inr xs \<Longrightarrow> set xs = set bs"
  by (auto simp: order_rows_def direction_def split: option.splits prod.splits if_splits)

lemma page_rows_subset: "set (page_rows s t xs) \<subseteq> set xs"
proof (cases "0 \<le> t")
  case True
  then show ?thesis
    by (auto simp: page_rows_def dest: in_set_takeD in_set_dropD)
next
  case False
  have "set (take (nat (- t)) (drop (nat s) (rev xs))) \<subseteq> set (rev xs)"
    by (meson in_set_takeD in_set_dropD subsetI)
  with False show ?thesis
    by (simp add: page_rows_def)
qed

lemma direction_map: "map f (direction dir xs) = direction dir (map f xs)"
  by (simp add: direction_def rev_map)

lemma direction_twice: "direction dir (direction dir xs) = xs"
  by (simp add: direction_def)

lemma sorted_first_key:
  fixes k :: "'a \<Rightarrow> 'b::linorder" and t :: "'a \<Rightarrow> 'c::linorder"
  shows "sorted (map k (sort_key (\<lambda>b. (k b, t b)) xs))"
proof -
  have "sorted (map (\<lambda>b. (k b, t b)) (sort_key (\<lambda>b. (k b, t b)) xs))"
    by (rule sorted_sort_key)
  then have "sorted_wrt (\<lambda>x y. (k x, t x) \<le> (k y, t y)) (sort_key (\<lambda>b. (k b, t b)) xs)"
    by (simp only: sorted_map)
  then have "sorted_wrt (\<lambda>x y. k x \<le> k y) (sort_key (\<lambda>b. (k b, t b)) xs)"
    by (rule sorted_wrt_mono_rel [rotated]) auto
  then show ?thesis by (simp only: sorted_map)
qed

lemma order_rows_sorted:
  assumes "order_rows w (Some (field, dir)) bs = Inr ordered"
  shows "(dir = ''asc'' \<or> dir = ''desc'') \<and> set ordered = set bs \<and> length ordered = length bs \<and>
         (if field = ''product_name''
          then sorted (direction dir (map (\<lambda>b. sort_value w (product_name b)) ordered))
          else if field = ''final_price''
          then sorted (direction dir (map (\<lambda>b. sort_value w (final_price b)) ordered))
          else sorted (direction dir (map id_category ordered)))"
proof -
  from assms have d: "dir = ''asc'' \<or> dir = ''desc''"
    by (auto simp: order_rows_def split: if_splits)
  from assms have f: "field = ''product_name'' \<or> field = ''final_price'' \<or> field = ''id_category''"
    by (auto simp: order_rows_def split: if_splits)
  from assms have s: "set ordered = set bs" by (rule order_rows_set)
  from assms have l: "length ordered = length bs"
    by (auto simp: order_rows_def direction_def split: if_splits)
  from f show ?thesis
  proof (elim disjE)
    assume n: "field = ''product_name''"
    with assms d have "ordered =
        direction dir (sort_key (\<lambda>b. (sort_value w (product_name b), tie_break w b)) bs)"
      by (auto simp: order_rows_def)
    then have "direction dir (map (\<lambda>b. sort_value w (product_name b)) ordered) =
        map (\<lambda>b. sort_value w (product_name b))
          (sort_key (\<lambda>b. (sort_value w (product_name b), tie_break w b)) bs)"
      by (simp only: direction_map direction_twice)
    with sorted_first_key [of "\<lambda>b. sort_value w (product_name b)" "tie_break w" bs] n d s l
    show ?thesis by simp
  next
    assume n: "field = ''final_price''"
    with assms d have "ordered =
        direction dir (sort_key (\<lambda>b. (sort_value w (final_price b), tie_break w b)) bs)"
      by (auto simp: order_rows_def)
    then have "direction dir (map (\<lambda>b. sort_value w (final_price b)) ordered) =
        map (\<lambda>b. sort_value w (final_price b))
          (sort_key (\<lambda>b. (sort_value w (final_price b), tie_break w b)) bs)"
      by (simp only: direction_map direction_twice)
    with sorted_first_key [of "\<lambda>b. sort_value w (final_price b)" "tie_break w" bs] n d s l
    show ?thesis by simp
  next
    assume n: "field = ''id_category''"
    with assms d have "ordered =
        direction dir (sort_key (\<lambda>b. (id_category b, tie_break w b)) bs)"
      by (auto simp: order_rows_def)
    then have "direction dir (map id_category ordered) =
        map id_category (sort_key (\<lambda>b. (id_category b, tie_break w b)) bs)"
      by (simp only: direction_map direction_twice)
    with sorted_first_key [of id_category "tie_break w" bs] n d s l
    show ?thesis by simp
  qed
qed

lemma row_include [simp]: "row (include_categories w m s b) = b"
  by (simp add: include_categories_def)

lemma book_findMany_Inr:
  assumes "book_findMany faults w args = Inr found"
  shows "\<exists>ordered. faults Book_findMany = None \<and> 0 \<le> fm_skip args \<and>
           order_rows w (fm_orderBy args) (filter (matches (fm_where args)) (books w)) = Inr ordered \<and>
           found = map (include_categories w True False)
                     (page_rows (fm_skip args) (fm_take args) ordered)"
  using assms
  by (auto simp: book_findMany_def split: option.splits if_splits sum.splits)

lemma book_findMany_rows:
  assumes "book_findMany faults w args = Inr found" and "x \<in> set found"
  shows "row x \<in> set (books w) \<and> matches (fm_where args) (row x)"
proof -
  from book_findMany_Inr [OF assms(1)] obtain ordered where
    o: "order_rows w (fm_orderBy args) (filter (matches (fm_where args)) (books w)) = Inr ordered"
    and f: "found = map (include_categories w True False)
                     (page_rows (fm_skip args) (fm_take args) ordered)"
    by blast
  from f assms(2) obtain b where b: "b \<in> set (page_rows (fm_skip args) (fm_take args) ordered)"
    and x: "x = include_categories w True False b"
    by auto
  from b page_rows_subset [of "fm_skip args" "fm_take args" ordered]
  have "b \<in> set ordered" by auto
  with order_rows_set [OF o] have "b \<in> set (books w) \<and> matches (fm_where args) b" by simp
  with x show ?thesis by simp
qed

lemma findMany_query_simps [simp]:
  "fm_where (findMany_query page perPage fk so cid) = whereClause cid"
  "fm_skip (findMany_query page perPage fk so cid) = (page - 1) * perPage"
  "fm_take (findMany_query page perPage fk so cid) = perPage"
  "fm_orderBy (findMany_query page perPage fk so cid) = orderBy fk so"
  by (simp_all add: findMany_query_def)

lemma matches_whereClause:
  "matches (whereClause cid) b =
     (deleted_at b = None \<and> (if cid \<noteq> ''none'' then id_category b = cid else True))"
  by (simp add: matches_def whereClause_def)

lemma findAllBooks_Inr:
  assumes "findAllBooks faults w page perPage fk so cid = Inr p"
  shows "book_findMany faults w (findMany_query page perPage fk so cid) = Inr (rows p) \<and>
         rows p \<noteq> [] \<and>
         (case countBooks faults w of
            Inr n \<Rightarrow> totalBooks p = Some n \<and> totalPages p = Some (math_ceil_div n perPage)
          | Inl e \<Rightarrow> totalBooks p = None \<and> totalPages p = None)"
  using assms
  by (auto simp: findAllBooks_def finally_return_def split: sum.splits if_splits)

lemma countBooks_eq:
  "countBooks faults w =
     (case faults Book_count of
        Some m \<Rightarrow> Inl (InternalServerErrorException ''An error occurred while counting books.'')
      | None \<Rightarrow> Inr (length (filter (\<lambda>b. deleted_at b = None) (books w))))"
proof -
  have "matches \<lparr>where_id = None, where_deleted_at_null = True, where_id_category = None\<rparr> =
          (\<lambda>b. deleted_at b = None)"
    by (rule ext) (simp add: matches_def)
  then show ?thesis
    by (simp add: countBooks_def book_count_def split: option.splits)
qed

lemma findAllBooks_page:
  assumes "findAllBooks faults w page perPage fk so cid = Inr p"
  shows "\<exists>ordered.
           order_rows w (orderBy fk so) (filter (matches (whereClause cid)) (books w)) = Inr ordered \<and>
           rows p = map (include_categories w True False)
                      (page_rows ((page - 1) * perPage) perPage ordered)"
proof -
  from findAllBooks_Inr [OF assms]
  have "book_findMany faults w (findMany_query page perPage fk so cid) = Inr (rows p)"
    by blast
  from book_findMany_Inr [OF this] show ?thesis by simp
qed

lemma row_comp_include [simp]: "row \<circ> include_categories w m s = id"
  by (rule ext) simp

lemma find_distinct_key:
  assumes "distinct (map f xs)" and "b \<in> set xs" and "P b"
    and "\<And>x. x \<in> set xs \<Longrightarrow> P x \<Longrightarrow> f x = f b"
  shows "find P xs = Some b"
  using assms
proof (induction xs)
  case Nil
  then show ?case by simp
next
  case (Cons a xs)
  show ?case
  proof (cases "P a")
    case True
    have "a = b"
    proof (rule ccontr)
      assume "a \<noteq> b"
      with Cons.prems(2) have "b \<in> set xs" by simp
      then have "f b \<in> f ` set xs" by (rule imageI)
      moreover from Cons.prems(4) [of a] True have "f a = f b" by simp
      moreover from Cons.prems(1) have "f a \<notin> f ` set xs" by simp
      ultimately show False by simp
    qed
    with True show ?thesis by simp
  next
    case False
    with Cons.prems(2,3) have b: "b \<in> set xs" by auto
    from Cons.prems(1) have d: "distinct (map f xs)" by simp
    have "find P xs = Some b"
      using d b Cons.prems(3)
    proof (rule Cons.IH)
      show "f x = f b" if "x \<in> set xs" and "P x" for x
        using that Cons.prems(4) [of x] by simp
    qed
    with False show ?thesis by simp
  qed
qed

lemma find_None_iff2: "find P xs = None \<longleftrightarrow> (\<forall>x \<in> set xs. \<not> P x)"
  by (induction xs) auto

subsection \<open>The steps of createBook\<close>

lemma createBook_image_tables:
  "books (snd (createBook_image faults w img)) = books w \<and>
   categories (snd (createBook_image faults w img)) = categories w"
  by (auto simp: createBook_image_def fs_mkdirSync_def fs_writeFileSync_def
      split: option.splits sum.splits prod.splits)

lemma find_category_cong: "categories w1 = categories w \<Longrightarrow> find_category w1 = find_category w"
  by (rule ext) (simp add: find_category_def)

lemma createBook_after_image:
  assumes "createBook_image faults w bookImage = (Inr imageUrl, w1)"
  shows "createBook faults w new_id d bookImage =
     (case createBook_try faults w1 new_id d imageUrl of
        (Inr b, w2) \<Rightarrow> (Inr b, w2)
      | (Inl error, w2) \<Rightarrow>
          if instanceof_NotFoundException error then (Inl error, w2)
          else (Inl (InternalServerErrorException ''Failed to create a new book!''), w2))"
  by (simp add: createBook_def assms)

lemma book_create_error:
  "fst (book_create faults w new_id d) = Inl e \<Longrightarrow> \<exists>m. e = Error m"
  by (auto simp: book_create_def Let_def split: option.splits if_splits)

lemma createBook_try_error:
  assumes "fst (createBook_try faults w new_id d imageUrl) = Inl e"
  shows "e = NotFoundException (''Main category with ID '' @ dto_categoryId d @ '' not found'') \<or>
         (\<exists>s. truthy (dto_subCategoryId d) = Some s \<and>
              e = NotFoundException (''Sub category with ID '' @ s @ '' not found'')) \<or>
         (\<exists>m. e = Error m)"
proof (cases "bookCategory_findUnique faults w (dto_categoryId d)")
  case (Inl x)
  with assms show ?thesis
    by (auto simp: createBook_try_def bookCategory_findUnique_def split: option.splits)
next
  case (Inr found)
  show ?thesis
  proof (cases found)
    case None
    with Inr assms show ?thesis by (simp add: createBook_try_def)
  next
    case (Some main_cat)
    show ?thesis
    proof (cases "truthy (dto_subCategoryId d)")
      case None
      with Inr Some assms book_create_error show ?thesis
        by (auto simp: createBook_try_def)
    next
      case sub: (Some s)
      show ?thesis
      proof (cases "bookCategory_findUnique faults w s")
        case (Inl x)
        with Inr Some sub assms show ?thesis
          by (auto simp: createBook_try_def bookCategory_findUnique_def split: option.splits)
      next
        case sf: (Inr sfound)
        show ?thesis
        proof (cases sfound)
          case None
          with Inr Some sub sf assms show ?thesis by (simp add: createBook_try_def)
        next
          case (Some sub_cat)
          with Inr \<open>found = Some main_cat\<close> sub sf assms book_create_error show ?thesis
            by (auto simp: createBook_try_def)
        qed
      qed
    qed
  qed
qed

lemma createBook_image_written:
  assumes "upload_dir w = None \<longrightarrow> faults Fs_mkdirSync = None"
    and "faults (Fs_writeFileSync (originalname f)) = None"
  shows "\<exists>w1 dir. createBook_image faults w (Some f) = (Inr (Some (originalname f)), w1) \<and>
           upload_dir w1 = Some dir \<and> dir (originalname f) = Some (buffer f)"
  using assms
  by (cases "upload_dir w")
     (simp_all add: createBook_image_def fs_mkdirSync_def fs_writeFileSync_def)

lemma createBook_try_NotFound_world:
  assumes "fst (createBook_try faults w new_id d imageUrl) = Inl (NotFoundException m)"
  shows "snd (createBook_try faults w new_id d imageUrl) = w"
proof (cases "fst (book_create faults w new_id
                 \<lparr>data_title = dto_title d, data_author = dto_author d,
                  data_image = truthy imageUrl, data_mainCategory = dto_categoryId d,
                  data_subCategory = truthy (dto_subCategoryId d)\<rparr>)")
  case (Inl e)
  from book_create_error [OF this] obtain m' where "e = Error m'" by blast
  with Inl assms show ?thesis
    by (auto simp: createBook_try_def split: sum.splits option.splits)
next
  case (Inr b)
  with assms show ?thesis
    by (auto simp: createBook_try_def split: sum.splits option.splits)
qed

subsection \<open>Deleting\<close>

lemma find_SomeD2: "find P xs = Some x \<Longrightarrow> P x \<and> x \<in> set xs"
  by (induction xs) (auto split: if_splits)

lemma find_key_Some:
  assumes "i \<in> set (map f xs)"
  shows "\<exists>x. find (\<lambda>x. f x = i) xs = Some x"
proof (cases "find (\<lambda>x. f x = i) xs")
  case None
  with assms show ?thesis by (auto simp: find_None_iff2)
next
  case (Some x)
  then show ?thesis by blast
qed

lemma softDeleteBook_Inr:
  assumes "softDeleteBook faults w now i = (Inr b, w1)"
  obtains b0 where "b0 \<in> set (books w)" and "book_id b0 = i"
    and "b = b0\<lparr>deleted_at := Some now\<rparr>"
    and "books w1 =
           map (\<lambda>x. if book_id x = i then x\<lparr>deleted_at := Some now\<rparr> else x) (books w)"
proof -
  from assms obtain b0 where f: "find (\<lambda>x. book_id x = i) (books w) = Some b0"
    and r: "b = b0\<lparr>deleted_at := Some now\<rparr>"
    and w1: "w1 = w\<lparr>books := map (\<lambda>x. if book_id x = i then x\<lparr>deleted_at := Some now\<rparr> else x)
                               (books w)\<rparr>"
    by (auto simp: softDeleteBook_def book_update_def split: option.splits)
  from find_SomeD2 [OF f] have "b0 \<in> set (books w)" and "book_id b0 = i" by simp_all
  moreover from w1 have "books w1 =
      map (\<lambda>x. if book_id x = i then x\<lparr>deleted_at := Some now\<rparr> else x) (books w)"
    by simp
  ultimately show ?thesis using r that by blast
qed

lemma deleteBook_Inr:
  assumes "deleteBook faults w i = (Inr b, w1)"
  shows "b \<in> set (books w) \<and> book_id b = i \<and>
         books w1 = filter (\<lambda>x. book_id x \<noteq> i) (books w)"
proof -
  from assms have f: "find (\<lambda>x. book_id x = i) (books w) = Some b"
    and w1: "w1 = w\<lparr>books := filter (\<lambda>x. book_id x \<noteq> i) (books w)\<rparr>"
    by (auto simp: deleteBook_def book_delete_def split: option.splits)
  from find_SomeD2 [OF f] w1 show ?thesis by auto
qed

lemma findBook_no_active:
  assumes "\<forall>x \<in> set (books w). book_id x = i \<longrightarrow> deleted_at x \<noteq> None"
  shows "findBook faults w i =
           (case faults (Book_findUnique i) of
              None \<Rightarrow> Inl (NotFoundException ''Book not found!'')
            | Some m \<Rightarrow>
                Inl (InternalServerErrorException ''An error occurred while fetching book.''))"
proof -
  from assms
  have "find (matches \<lparr>where_id = Some i, where_deleted_at_null = True,
                       where_id_category = None\<rparr>) (books w) = None"
    by (auto simp: find_None_iff2 matches_def)
  then show ?thesis
    by (simp add: findBook_def book_findUnique_def split: option.splits)
qed



lemma map_key_preserved: "(\<And>x. f (g x) = f x) \<Longrightarrow> map f (map g xs) = map f xs"
  by (induction xs) simp_all

lemma softDeleteBook_hides:
  assumes a: "softDeleteBook faults w now i = (Inr b, w1)"
  shows "\<forall>x \<in> set (books w1). book_id x = i \<longrightarrow> deleted_at x \<noteq> None"
    and "i \<in> set (map book_id (books w1))"
proof -
  from a obtain b0 where b0: "b0 \<in> set (books w)" "book_id b0 = i"
    and bs: "books w1 =
      map (\<lambda>x. if book_id x = i then x\<lparr>deleted_at := Some now\<rparr> else x) (books w)"
    by (rule softDeleteBook_Inr)
  show "\<forall>x \<in> set (books w1). book_id x = i \<longrightarrow> deleted_at x \<noteq> None"
  proof (intro ballI impI)
    fix x assume xs: "x \<in> set (books w1)" and xi: "book_id x = i"
    from xs obtain y where "y \<in> set (books w)"
      and xy: "x = (if book_id y = i then y\<lparr>deleted_at := Some now\<rparr> else y)"
      unfolding bs set_map by (rule imageE)
    show "deleted_at x \<noteq> None"
    proof (cases "book_id y = i")
      case True
      with xy show ?thesis by simp
    next
      case False
      with xy xi show ?thesis by simp
    qed
  qed
  have e: "map book_id (books w1) = map book_id (books w)"
    unfolding bs by (rule map_key_preserved) simp
  from b0(1) have "book_id b0 \<in> book_id ` set (books w)" by (rule imageI)
  with b0(2) have "i \<in> set (map book_id (books w))" by simp
  then show "i \<in> set (map book_id (books w1))" by (simp only: e)
qed

lemma findAllBooks_skips_id:
  assumes k: "\<forall>x \<in> set (books w1). book_id x = i \<longrightarrow> deleted_at x \<noteq> None"
    and l: "findAllBooks faults1 w1 page perPage fk so cid = Inr p"
  shows "i \<notin> set (map (book_id \<circ> row) (rows p))"
proof
  assume "i \<in> set (map (book_id \<circ> row) (rows p))"
  then obtain x where x: "x \<in> set (rows p)" and xi: "book_id (row x) = i" by auto
  from findAllBooks_Inr [OF l]
  have "book_findMany faults1 w1 (findMany_query page perPage fk so cid) = Inr (rows p)"
    by blast
  from book_findMany_rows [OF this x]
  have "row x \<in> set (books w1)" and "deleted_at (row x) = None"
    by (simp_all add: matches_whereClause)
  with k xi show False by blast
qed

lemma deleteBook_removes:
  assumes "deleteBook faults w i = (Inr b, w1)"
  shows "i \<notin> set (map book_id (books w1))"
  using deleteBook_Inr [OF assms] by auto

lemma softDeleteBook_succeeds:
  assumes a: "i \<in> set (map book_id (books w)) \<and> faults (Book_update i) = None"
  shows "\<exists>b w1. softDeleteBook faults w now i = (Inr b, w1)"
proof -
  from a find_key_Some [of i book_id "books w"] obtain x where
    "find (\<lambda>x. book_id x = i) (books w) = Some x" by blast
  with a show "\<exists>b w1. softDeleteBook faults w now i = (Inr b, w1)"
    by (simp add: softDeleteBook_def book_update_def)
qed

lemma deleteBook_succeeds:
  assumes a: "i \<in> set (map book_id (books w)) \<and> faults (Book_delete i) = None"
  shows "\<exists>b w1. deleteBook faults w i = (Inr b, w1)"
proof -
  from a find_key_Some [of i book_id "books w"] obtain x where
    "find (\<lambda>x. book_id x = i) (books w) = Some x" by blast
  with a show ?thesis
    by (simp add: deleteBook_def book_delete_def)
qed

subsection \<open>The number of pages\<close>

lemma math_ceil_div_eq:
  "math_ceil_div n perPage =
     (if perPage = 0 then (if n = 0 then NaN else Infinity)
      else Num (- ((- int n) div perPage)))"
proof -
  have "\<lceil>(of_nat n :: rat) / of_int perPage\<rceil> = - \<lfloor>of_int (- int n) / (of_int perPage :: rat)\<rfloor>"
    by (simp add: ceiling_def)
  also have "\<dots> = - ((- int n) div perPage)"
    by (simp only: floor_divide_of_int_eq)
  finally show ?thesis by (simp add: math_ceil_div_def)
qed

lemma math_ceil_div_bounds:
  assumes "1 \<le> perPage"
  shows "math_ceil_div n perPage = Num \<lceil>(of_nat n :: rat) / of_int perPage\<rceil> \<and>
         int n \<le> \<lceil>(of_nat n :: rat) / of_int perPage\<rceil> * perPage \<and>
         (\<lceil>(of_nat n :: rat) / of_int perPage\<rceil> - 1) * perPage < int n"
proof -
  define k where "k = \<lceil>(of_nat n :: rat) / of_int perPage\<rceil>"
  have pos: "(0::rat) < of_int perPage" using assms by simp
  have "(of_nat n :: rat) / of_int perPage \<le> of_int k"
    unfolding k_def by (rule le_of_int_ceiling)
  then have "(of_nat n :: rat) \<le> of_int k * of_int perPage"
    using pos by (simp add: pos_divide_le_eq)
  then have "(of_int (int n) :: rat) \<le> of_int (k * perPage)" by simp
  then have up: "int n \<le> k * perPage" by (simp only: of_int_le_iff)
  have "of_int k - 1 < (of_nat n :: rat) / of_int perPage"
    unfolding k_def by linarith
  then have "(of_int k - 1) * of_int perPage < (of_nat n :: rat)"
    using pos by (simp add: pos_less_divide_eq)
  then have "(of_int ((k - 1) * perPage) :: rat) < of_int (int n)" by simp
  then have lo: "(k - 1) * perPage < int n" by (simp only: of_int_less_iff)
  from assms have "math_ceil_div n perPage = Num k"
    by (simp add: math_ceil_div_def k_def)
  with up lo show ?thesis unfolding k_def by blast
qed

subsection \<open>A failing count\<close>

text \<open>
  C1. The claim: when the listing step succeeded and the counting step fails, the
  call fails with an internal error and returns no result object. The code at such
  a call: the listing of \<open>shop\<close> returns its two active books, the count throws, the
  \<open>catch\<close> raises the internal error, and the \<open>return\<close> of the \<open>finally\<close> block
  replaces it, so that the caller receives an object whose two totals are undefined.
\<close>

theorem findAllBooks_count_failure_returns:
  "book_findMany count_fault shop (findMany_query 1 10 ''none'' ''asc'' ''none'') =
     Inr [\<lparr>row = book1, mainCategory = Some cat1, subCategory = None\<rparr>,
          \<lparr>row = book3, mainCategory = Some cat2, subCategory = None\<rparr>] \<and>
   countBooks count_fault shop =
     Inl (InternalServerErrorException ''An error occurred while counting books.'') \<and>
   findAllBooks count_fault shop 1 10 ''none'' ''asc'' ''none'' =
     Inr \<lparr>totalBooks = None, totalPages = None,
          rows = [\<lparr>row = book1, mainCategory = Some cat1, subCategory = None\<rparr>,
                  \<lparr>row = book3, mainCategory = Some cat2, subCategory = None\<rparr>]\<rparr>"
  by (simp add: listing_defs catalogue_defs)

subsection \<open>An empty page\<close>

text \<open>
  C2. When the listing step returns no row, \<open>findAllBooks\<close> throws the not-found
  exception; in particular for page 1 with 10 rows per page on a catalogue without
  an active book, whenever the listing step itself does not throw. A result object
  never has an empty list of rows.
\<close>

theorem findAllBooks_empty_page:
  "(book_findMany faults w (findMany_query page perPage fk so cid) = Inr [] \<longrightarrow>
      findAllBooks faults w page perPage fk so cid =
        Inl (NotFoundException ''No product was found!'')) \<and>
   ((\<forall>b \<in> set (books w). deleted_at b \<noteq> None) \<and>
    book_findMany faults w (findMany_query 1 10 fk so cid) = Inr found \<longrightarrow>
      findAllBooks faults w 1 10 fk so cid = Inl (NotFoundException ''No product was found!'')) \<and>
   (findAllBooks faults w page perPage fk so cid = Inr p \<longrightarrow> rows p \<noteq> [])"
proof (intro conjI impI)
  assume "book_findMany faults w (findMany_query page perPage fk so cid) = Inr []"
  then show "findAllBooks faults w page perPage fk so cid =
      Inl (NotFoundException ''No product was found!'')"
    by (simp add: findAllBooks_def)
next
  assume a: "(\<forall>b \<in> set (books w). deleted_at b \<noteq> None) \<and>
    book_findMany faults w (findMany_query 1 10 fk so cid) = Inr found"
  have "found = []"
  proof (rule ccontr)
    assume "found \<noteq> []"
    then obtain x where "x \<in> set found" by (cases found) auto
    with a book_findMany_rows [of faults w "findMany_query 1 10 fk so cid" found x]
    have "row x \<in> set (books w)" and "deleted_at (row x) = None"
      by (simp_all add: matches_whereClause)
    with a show False by blast
  qed
  with a show "findAllBooks faults w 1 10 fk so cid =
      Inl (NotFoundException ''No product was found!'')"
    by (simp add: findAllBooks_def)
next
  assume "findAllBooks faults w page perPage fk so cid = Inr p"
  then show "rows p \<noteq> []" using findAllBooks_Inr by blast
qed

theorem findAllBooks_empty_page_witness:
  "(book_findMany no_faults shop (findMany_query 3 10 ''name'' ''asc'' ''c1'') = Inr [] \<and>
    findAllBooks no_faults shop 3 10 ''name'' ''asc'' ''c1'' =
      Inl (NotFoundException ''No product was found!'')) \<and>
   (filter (\<lambda>b. deleted_at b = None) (books closed_shop) = [] \<and>
    book_findMany no_faults closed_shop (findMany_query 1 10 ''none'' ''asc'' ''none'') = Inr [] \<and>
    findAllBooks no_faults closed_shop 1 10 ''none'' ''asc'' ''none'' =
      Inl (NotFoundException ''No product was found!'')) \<and>
   (findAllBooks no_faults shop 1 10 ''none'' ''asc'' ''none'' =
      Inr \<lparr>totalBooks = Some 2, totalPages = Some (Num 1),
           rows = [\<lparr>row = book1, mainCategory = Some cat1, subCategory = None\<rparr>,
                   \<lparr>row = book3, mainCategory = Some cat2, subCategory = None\<rparr>]\<rparr> \<and>
    rows \<lparr>totalBooks = Some 2, totalPages = Some (Num 1),
          rows = [\<lparr>row = book1, mainCategory = Some cat1, subCategory = None\<rparr>,
                  \<lparr>row = book3, mainCategory = Some cat2, subCategory = None\<rparr>]\<rparr> \<noteq> [])"
  using
    findAllBooks_empty_page [of no_faults shop 3 10 "''name''" "''asc''" "''c1''" "[]"
      "\<lparr>totalBooks = Some 2, totalPages = Some (Num 1),
        rows = [\<lparr>row = book1, mainCategory = Some cat1, subCategory = None\<rparr>,
                \<lparr>row = book3, mainCategory = Some cat2, subCategory = None\<rparr>]\<rparr>"]
    findAllBooks_empty_page [of no_faults closed_shop 1 10 "''none''" "''asc''" "''none''" "[]"
      "\<lparr>totalBooks = Some 2, totalPages = Some (Num 1),
        rows = [\<lparr>row = book1, mainCategory = Some cat1, subCategory = None\<rparr>,
                \<lparr>row = book3, mainCategory = Some cat2, subCategory = None\<rparr>]\<rparr>"]
    findAllBooks_empty_page [of no_faults shop 1 10 "''none''" "''asc''" "''none''" "[]"
      "\<lparr>totalBooks = Some 2, totalPages = Some (Num 1),
        rows = [\<lparr>row = book1, mainCategory = Some cat1, subCategory = None\<rparr>,
                \<lparr>row = book3, mainCategory = Some cat2, subCategory = None\<rparr>]\<rparr>"]
  by (simp add: listing_defs math_ceil_div_eq catalogue_defs)

subsection \<open>Reads skip soft-deleted rows\<close>

text \<open>
  C3. \<open>findBook\<close>, \<open>findAllBooks\<close> and \<open>countBooks\<close> read only rows whose
  \<open>deleted_at\<close> is null: whatever the filter, the sort and the page, every row a read
  returns is a row of the table with \<open>deleted_at\<close> null, and \<open>countBooks\<close> returns,
  whenever the store answers, exactly the number of rows with \<open>deleted_at\<close> null.
\<close>

theorem reads_skip_soft_deleted:
  "(findBook faults w i = Inr r \<longrightarrow> row r \<in> set (books w) \<and> deleted_at (row r) = None) \<and>
   (findAllBooks faults w page perPage fk so cid = Inr p \<longrightarrow>
      (\<forall>x \<in> set (rows p). row x \<in> set (books w) \<and> deleted_at (row x) = None)) \<and>
   (faults Book_count = None \<longrightarrow>
      countBooks faults w = Inr (length (filter (\<lambda>b. deleted_at b = None) (books w)))) \<and>
   (countBooks faults w = Inr n \<longrightarrow> n = length (filter (\<lambda>b. deleted_at b = None) (books w)))"
proof (intro conjI impI ballI)
  assume a: "findBook faults w i = Inr r"
  then obtain b where f: "find (matches \<lparr>where_id = Some i, where_deleted_at_null = True,
        where_id_category = None\<rparr>) (books w) = Some b" and r: "r = include_categories w True True b"
    by (auto simp: findBook_def book_findUnique_def split: option.splits sum.splits)
  from f have "b \<in> set (books w)" and "deleted_at b = None"
    by (auto simp: find_Some_iff matches_def)
  with r show "row r \<in> set (books w)" and "deleted_at (row r) = None" by simp_all
next
  fix x assume a: "findAllBooks faults w page perPage fk so cid = Inr p" and x: "x \<in> set (rows p)"
  from findAllBooks_Inr [OF a]
  have "book_findMany faults w (findMany_query page perPage fk so cid) = Inr (rows p)" by blast
  from book_findMany_rows [OF this x]
  show "row x \<in> set (books w)" and "deleted_at (row x) = None"
    by (simp_all add: matches_whereClause)
next
  assume "faults Book_count = None"
  then show "countBooks faults w = Inr (length (filter (\<lambda>b. deleted_at b = None) (books w)))"
    by (simp add: countBooks_eq)
next
  assume "countBooks faults w = Inr n"
  then show "n = length (filter (\<lambda>b. deleted_at b = None) (books w))"
    by (simp add: countBooks_eq split: option.splits)
qed

theorem reads_skip_soft_deleted_witness:
  "(findBook no_faults shop ''b1'' =
      Inr \<lparr>row = book1, mainCategory = Some cat1, subCategory = None\<rparr> \<and>
    book1 \<in> set (books shop) \<and> deleted_at book1 = None) \<and>
   (findAllBooks no_faults shop 1 10 ''price'' ''desc'' ''none'' =
      Inr \<lparr>totalBooks = Some 2, totalPages = Some (Num 1),
           rows = [\<lparr>row = book1, mainCategory = Some cat1, subCategory = None\<rparr>,
                   \<lparr>row = book3, mainCategory = Some cat2, subCategory = None\<rparr>]\<rparr> \<and>
    list_all (\<lambda>b. b \<in> set (books shop) \<and> deleted_at b = None) [book1, book3]) \<and>
   (no_faults Book_count = None \<and>
    countBooks no_faults shop =
      Inr (length (filter (\<lambda>b. deleted_at b = None) (books shop)))) \<and>
   (countBooks no_faults shop = Inr 2 \<and>
    2 = length (filter (\<lambda>b. deleted_at b = None) (books shop)))"
proof -
  let ?r = "\<lparr>row = book1, mainCategory = Some cat1, subCategory = None\<rparr>"
  let ?p = "\<lparr>totalBooks = Some 2, totalPages = Some (Num 1),
           rows = [\<lparr>row = book1, mainCategory = Some cat1, subCategory = None\<rparr>,
                   \<lparr>row = book3, mainCategory = Some cat2, subCategory = None\<rparr>]\<rparr>"
  note t = reads_skip_soft_deleted [of no_faults shop "''b1''" ?r 1 10 "''price''" "''desc''"
      "''none''" ?p 2]
  have f: "findBook no_faults shop ''b1'' = Inr ?r"
    by (simp add: findBook_defs catalogue_defs)
  have l: "findAllBooks no_faults shop 1 10 ''price'' ''desc'' ''none'' = Inr ?p"
    by code_simp
  have n: "no_faults Book_count = None"
    by (simp add: no_faults_def)
  have k: "countBooks no_faults shop = Inr 2"
    by code_simp
  from t [THEN conjunct1, THEN mp, OF f]
  have c1: "book1 \<in> set (books shop) \<and> deleted_at book1 = None" by simp
  from t [THEN conjunct2, THEN conjunct1, THEN mp, OF l]
  have c2: "list_all (\<lambda>b. b \<in> set (books shop) \<and> deleted_at b = None) [book1, book3]"
    by simp
  note c3 = t [THEN conjunct2, THEN conjunct2, THEN conjunct1, THEN mp, OF n]
  note c4 = t [THEN conjunct2, THEN conjunct2, THEN conjunct2, THEN mp, OF k]
  from f c1 l c2 n c3 k c4 show ?thesis by blast
qed

subsection \<open>Looking a book up\<close>

text \<open>
  C4. In a table whose identifiers are unique, \<open>findBook\<close> returns the active row
  with the given identifier together with its main and sub category records; when
  no active row has the identifier (there is none, or it is soft-deleted) it throws
  the not-found exception; and it throws the internal error exactly when the call
  to the store throws.
\<close>

theorem findBook_result:
  "(faults (Book_findUnique i) = None \<and> distinct (map book_id (books w)) \<and>
    b \<in> set (books w) \<and> book_id b = i \<and> deleted_at b = None \<longrightarrow>
      findBook faults w i =
        Inr \<lparr>row = b,
             mainCategory = find_category w (id_category b),
             subCategory =
               (case id_sub_category b of None \<Rightarrow> None | Some s \<Rightarrow> find_category w s)\<rparr>) \<and>
   (faults (Book_findUnique i) = None \<and>
    (\<forall>b \<in> set (books w). book_id b = i \<longrightarrow> deleted_at b \<noteq> None) \<longrightarrow>
      findBook faults w i = Inl (NotFoundException ''Book not found!'')) \<and>
   (findBook faults w i = Inl (InternalServerErrorException m) \<longrightarrow>
      faults (Book_findUnique i) \<noteq> None) \<and>
   (faults (Book_findUnique i) \<noteq> None \<longrightarrow>
      findBook faults w i =
        Inl (InternalServerErrorException ''An error occurred while fetching book.''))"
proof (intro conjI impI)
  let ?wh = "\<lparr>where_id = Some i, where_deleted_at_null = True, where_id_category = None\<rparr>"
  assume a: "faults (Book_findUnique i) = None \<and> distinct (map book_id (books w)) \<and>
    b \<in> set (books w) \<and> book_id b = i \<and> deleted_at b = None"
  have "find (matches ?wh) (books w) = Some b"
  proof (rule find_distinct_key [where f = book_id])
    show "distinct (map book_id (books w))" using a by simp
    show "b \<in> set (books w)" using a by simp
    show "matches ?wh b" using a by (simp add: matches_def)
    show "book_id x = book_id b" if "x \<in> set (books w)" and "matches ?wh x" for x
      using that a by (simp add: matches_def)
  qed
  with a show "findBook faults w i =
        Inr \<lparr>row = b,
             mainCategory = find_category w (id_category b),
             subCategory =
               (case id_sub_category b of None \<Rightarrow> None | Some s \<Rightarrow> find_category w s)\<rparr>"
    by (simp add: findBook_def book_findUnique_def include_categories_def)
next
  let ?wh = "\<lparr>where_id = Some i, where_deleted_at_null = True, where_id_category = None\<rparr>"
  assume a: "faults (Book_findUnique i) = None \<and>
    (\<forall>b \<in> set (books w). book_id b = i \<longrightarrow> deleted_at b \<noteq> None)"
  then have "find (matches ?wh) (books w) = None"
    by (auto simp: find_None_iff2 matches_def)
  with a show "findBook faults w i = Inl (NotFoundException ''Book not found!'')"
    by (simp add: findBook_def book_findUnique_def)
next
  assume "findBook faults w i = Inl (InternalServerErrorException m)"
  then show "faults (Book_findUnique i) \<noteq> None"
    by (auto simp: findBook_def book_findUnique_def split: option.splits)
next
  assume "faults (Book_findUnique i) \<noteq> None"
  then show "findBook faults w i =
        Inl (InternalServerErrorException ''An error occurred while fetching book.'')"
    by (auto simp: findBook_def book_findUnique_def split: option.splits)
qed

theorem findBook_result_witness:
  "(no_faults (Book_findUnique ''b1'') = None \<and> distinct (map book_id (books shop)) \<and>
    book1 \<in> set (books shop) \<and> book_id book1 = ''b1'' \<and> deleted_at book1 = None \<and>
    findBook no_faults shop ''b1'' =
      Inr \<lparr>row = book1, mainCategory = Some cat1, subCategory = None\<rparr>) \<and>
   (no_faults (Book_findUnique ''b2'') = None \<and>
    filter (\<lambda>b. book_id b = ''b2'' \<and> deleted_at b = None) (books shop) = [] \<and>
    findBook no_faults shop ''b2'' = Inl (NotFoundException ''Book not found!'')) \<and>
   (filter (\<lambda>b. book_id b = ''b9'') (books shop) = [] \<and>
    findBook no_faults shop ''b9'' = Inl (NotFoundException ''Book not found!'')) \<and>
   (fetch_fault (Book_findUnique ''b1'') \<noteq> None \<and>
    findBook fetch_fault shop ''b1'' =
      Inl (InternalServerErrorException ''An error occurred while fetching book.''))"
proof -
  have h1: "no_faults (Book_findUnique ''b1'') = None \<and> distinct (map book_id (books shop)) \<and>
    book1 \<in> set (books shop) \<and> book_id book1 = ''b1'' \<and> deleted_at book1 = None"
    by (simp add: catalogue_defs)
  have c1: "findBook no_faults shop ''b1'' =
      Inr \<lparr>row = book1, mainCategory = Some cat1, subCategory = None\<rparr>"
    using findBook_result [of no_faults "''b1''" shop book1, THEN conjunct1, THEN mp, OF h1]
    by (simp add: find_category_def catalogue_defs)
  have h2: "no_faults (Book_findUnique ''b2'') = None \<and>
    filter (\<lambda>b. book_id b = ''b2'' \<and> deleted_at b = None) (books shop) = []"
    by (simp add: catalogue_defs)
  have c2: "findBook no_faults shop ''b2'' = Inl (NotFoundException ''Book not found!'')"
    by (rule findBook_result [THEN conjunct2, THEN conjunct1, THEN mp])
       (simp add: catalogue_defs)
  have h3: "filter (\<lambda>b. book_id b = ''b9'') (books shop) = []"
    by (simp add: catalogue_defs)
  have c3: "findBook no_faults shop ''b9'' = Inl (NotFoundException ''Book not found!'')"
    by (rule findBook_result [THEN conjunct2, THEN conjunct1, THEN mp])
       (simp add: catalogue_defs)
  have h4: "fetch_fault (Book_findUnique ''b1'') \<noteq> None"
    by (simp add: fetch_fault_def)
  have c4: "findBook fetch_fault shop ''b1'' =
      Inl (InternalServerErrorException ''An error occurred while fetching book.'')"
    by (rule findBook_result [THEN conjunct2, THEN conjunct2, THEN conjunct2, THEN mp]) (rule h4)
  from h1 c1 h2 c2 h3 c3 h4 c4 show ?thesis by simp
qed

subsection \<open>Pages\<close>

text \<open>
  What holds of every result: for \<open>page \<ge> 1\<close> and \<open>perPage \<ge> 1\<close> it holds the matching
  rows in the requested order with the first \<open>(page - 1) * perPage\<close> of them
  skipped, at most \<open>perPage\<close> of them; and whenever its \<open>totalBooks\<close> is defined, its
  \<open>totalPages\<close> is the ceiling of \<open>totalBooks / perPage\<close>, the least number of pages
  of that size that hold \<open>totalBooks\<close> rows.
\<close>

lemma findAllBooks_pagination:
  assumes "1 \<le> page" and "1 \<le> perPage"
    and "findAllBooks faults w page perPage fk so cid = Inr p"
  shows "\<exists>ordered.
           order_rows w (orderBy fk so) (filter (matches (whereClause cid)) (books w)) = Inr ordered \<and>
           map row (rows p) = take (nat perPage) (drop (nat ((page - 1) * perPage)) ordered) \<and>
           length (rows p) \<le> nat perPage \<and>
           (\<forall>n. totalBooks p = Some n \<longrightarrow>
              totalPages p = Some (Num \<lceil>(of_nat n :: rat) / of_int perPage\<rceil>) \<and>
              int n \<le> \<lceil>(of_nat n :: rat) / of_int perPage\<rceil> * perPage \<and>
              (\<lceil>(of_nat n :: rat) / of_int perPage\<rceil> - 1) * perPage < int n) \<and>
           (faults Book_count = None \<longrightarrow>
              totalBooks p = Some (length (filter (\<lambda>b. deleted_at b = None) (books w))))"
proof -
  from findAllBooks_page [OF assms(3)] obtain ordered where
    o: "order_rows w (orderBy fk so) (filter (matches (whereClause cid)) (books w)) = Inr ordered"
    and r: "rows p = map (include_categories w True False)
                      (page_rows ((page - 1) * perPage) perPage ordered)"
    by blast
  from assms(2) have pr: "page_rows ((page - 1) * perPage) perPage ordered =
      take (nat perPage) (drop (nat ((page - 1) * perPage)) ordered)"
    by (simp add: page_rows_def)
  from r pr have m: "map row (rows p) =
      take (nat perPage) (drop (nat ((page - 1) * perPage)) ordered)"
    by simp
  from r pr have l: "length (rows p) \<le> nat perPage" by simp
  from findAllBooks_Inr [OF assms(3)]
  have cnt: "case countBooks faults w of
            Inr n \<Rightarrow> totalBooks p = Some n \<and> totalPages p = Some (math_ceil_div n perPage)
          | Inl e \<Rightarrow> totalBooks p = None \<and> totalPages p = None"
    by blast
  have t: "\<forall>n. totalBooks p = Some n \<longrightarrow>
              totalPages p = Some (Num \<lceil>(of_nat n :: rat) / of_int perPage\<rceil>) \<and>
              int n \<le> \<lceil>(of_nat n :: rat) / of_int perPage\<rceil> * perPage \<and>
              (\<lceil>(of_nat n :: rat) / of_int perPage\<rceil> - 1) * perPage < int n"
  proof (intro allI impI)
    fix n assume "totalBooks p = Some n"
    with cnt have "totalPages p = Some (math_ceil_div n perPage)"
      by (auto split: sum.splits)
    with math_ceil_div_bounds [OF assms(2), of n]
    show "totalPages p = Some (Num \<lceil>(of_nat n :: rat) / of_int perPage\<rceil>) \<and>
              int n \<le> \<lceil>(of_nat n :: rat) / of_int perPage\<rceil> * perPage \<and>
              (\<lceil>(of_nat n :: rat) / of_int perPage\<rceil> - 1) * perPage < int n"
      by simp
  qed
  have c: "faults Book_count = None \<longrightarrow>
      totalBooks p = Some (length (filter (\<lambda>b. deleted_at b = None) (books w)))"
    using cnt by (auto simp: countBooks_eq)
  show ?thesis by (rule exI [of _ ordered]) (rule conjI o m l t c)+
qed

text \<open>
  C5. The claim: for \<open>page \<ge> 1\<close> and \<open>perPage \<ge> 1\<close> a result has at most \<open>perPage\<close>
  rows and reports \<open>totalPages\<close> equal to the ceiling of the total count divided by
  \<open>perPage\<close>. The code at page 1 with 10 rows per page, when the count throws: the
  result has the two active books of \<open>shop\<close>, for which the claim asks one page,
  and its \<open>totalBooks\<close> and \<open>totalPages\<close> are undefined, because the \<open>return\<close> of the
  \<open>finally\<close> block runs after the failed count.
\<close>

theorem findAllBooks_count_failure_totalPages:
  "(1::int) \<le> 1 \<and> (1::int) \<le> 10 \<and>
   findAllBooks count_fault shop 1 10 ''none'' ''asc'' ''none'' =
     Inr \<lparr>totalBooks = None, totalPages = None,
          rows = [\<lparr>row = book1, mainCategory = Some cat1, subCategory = None\<rparr>,
                  \<lparr>row = book3, mainCategory = Some cat2, subCategory = None\<rparr>]\<rparr> \<and>
   length (filter (\<lambda>b. deleted_at b = None) (books shop)) = 2 \<and>
   math_ceil_div 2 10 = Num 1 \<and>
   totalPages
     \<lparr>totalBooks = None, totalPages = None,
      rows = [\<lparr>row = book1, mainCategory = Some cat1, subCategory = None\<rparr>,
              \<lparr>row = book3, mainCategory = Some cat2, subCategory = None\<rparr>]\<rparr> \<noteq>
     Some (Num 1)"
  by (simp add: listing_defs math_ceil_div_eq catalogue_defs)

subsection \<open>The category filter\<close>

text \<open>
  C6. With \<open>categoryId\<close> other than \<open>none\<close>, every row of a result of
  \<open>findAllBooks\<close> has that identifier as its main category, and the category record
  included with it is the one of that identifier. With \<open>categoryId = none\<close> the
  \<open>where\<close> clause has no category key, and the page is cut from all active rows,
  whatever their category.
\<close>

theorem findAllBooks_category_filter:
  "(cid \<noteq> ''none'' \<and> findAllBooks faults w page perPage fk so cid = Inr p \<longrightarrow>
      (\<forall>x \<in> set (rows p).
         id_category (row x) = cid \<and> mainCategory x = find_category w cid)) \<and>
   where_id_category (fm_where (findMany_query page perPage fk so ''none'')) = None \<and>
   (findAllBooks faults w page perPage fk so ''none'' = Inr q \<longrightarrow>
      (\<exists>ordered.
         order_rows w (orderBy fk so) (filter (\<lambda>b. deleted_at b = None) (books w)) = Inr ordered \<and>
         map row (rows q) = page_rows ((page - 1) * perPage) perPage ordered))"
proof (intro conjI impI ballI)
  fix x
  assume a: "cid \<noteq> ''none'' \<and> findAllBooks faults w page perPage fk so cid = Inr p"
    and x: "x \<in> set (rows p)"
  from a findAllBooks_Inr
  have fm: "book_findMany faults w (findMany_query page perPage fk so cid) = Inr (rows p)"
    by blast
  from book_findMany_rows [OF fm x] a show c: "id_category (row x) = cid"
    by (simp add: matches_whereClause)
  from book_findMany_Inr [OF fm] x
  have "mainCategory x = find_category w (id_category (row x))"
    by (auto simp: include_categories_def)
  with c show "mainCategory x = find_category w cid" by simp
next
  show "where_id_category (fm_where (findMany_query page perPage fk so ''none'')) = None"
    by (simp add: whereClause_def)
next
  assume a: "findAllBooks faults w page perPage fk so ''none'' = Inr q"
  have "matches (whereClause ''none'') = (\<lambda>b. deleted_at b = None)"
    by (rule ext) (simp add: matches_whereClause)
  with findAllBooks_page [OF a]
  show "\<exists>ordered.
         order_rows w (orderBy fk so) (filter (\<lambda>b. deleted_at b = None) (books w)) = Inr ordered \<and>
         map row (rows q) = page_rows ((page - 1) * perPage) perPage ordered"
    by auto
qed

theorem findAllBooks_category_filter_witness:
  "(''c2'' \<noteq> ''none'' \<and>
    findAllBooks no_faults shop 1 10 ''none'' ''asc'' ''c2'' =
      Inr \<lparr>totalBooks = Some 2, totalPages = Some (Num 1),
           rows = [\<lparr>row = book3, mainCategory = Some cat2, subCategory = None\<rparr>]\<rparr> \<and>
    list_all (\<lambda>x. id_category (row x) = ''c2'' \<and> mainCategory x = find_category shop ''c2'')
      [\<lparr>row = book3, mainCategory = Some cat2, subCategory = None\<rparr>]) \<and>
   (findAllBooks no_faults shop 1 10 ''none'' ''asc'' ''none'' =
      Inr \<lparr>totalBooks = Some 2, totalPages = Some (Num 1),
           rows = [\<lparr>row = book1, mainCategory = Some cat1, subCategory = None\<rparr>,
                   \<lparr>row = book3, mainCategory = Some cat2, subCategory = None\<rparr>]\<rparr> \<and>
    order_rows shop (orderBy ''none'' ''asc'') (filter (\<lambda>b. deleted_at b = None) (books shop)) =
      Inr [book1, book3] \<and>
    [book1, book3] = page_rows ((1 - 1) * 10) 10 [book1, book3] \<and>
    map id_category [book1, book3] = [''c1'', ''c2''])"
proof -
  let ?p = "\<lparr>totalBooks = Some 2, totalPages = Some (Num 1),
           rows = [\<lparr>row = book3, mainCategory = Some cat2, subCategory = None\<rparr>]\<rparr>"
  let ?q = "\<lparr>totalBooks = Some 2, totalPages = Some (Num 1),
           rows = [\<lparr>row = book1, mainCategory = Some cat1, subCategory = None\<rparr>,
                   \<lparr>row = book3, mainCategory = Some cat2, subCategory = None\<rparr>]\<rparr>"
  note t = findAllBooks_category_filter [of "''c2''" no_faults shop 1 10 "''none''" "''asc''" ?p ?q]
  have h0: "''c2'' \<noteq> ''none''" by simp
  have h1: "findAllBooks no_faults shop 1 10 ''none'' ''asc'' ''c2'' = Inr ?p" by code_simp
  have h2: "findAllBooks no_faults shop 1 10 ''none'' ''asc'' ''none'' = Inr ?q" by code_simp
  from t [THEN conjunct1, THEN mp, OF conjI, OF h0 h1]
  have c1: "list_all (\<lambda>x. id_category (row x) = ''c2'' \<and> mainCategory x = find_category shop ''c2'')
      [\<lparr>row = book3, mainCategory = Some cat2, subCategory = None\<rparr>]"
    by simp
  from t [THEN conjunct2, THEN conjunct2, THEN mp, OF h2] obtain ordered where
    o: "order_rows shop (orderBy ''none'' ''asc'') (filter (\<lambda>b. deleted_at b = None) (books shop)) =
      Inr ordered"
    and m: "map row (rows ?q) = page_rows ((1 - 1) * 10) 10 ordered"
    by blast
  have o': "order_rows shop (orderBy ''none'' ''asc'') (filter (\<lambda>b. deleted_at b = None) (books shop)) =
      Inr [book1, book3]"
    by code_simp
  from o o' have "ordered = [book1, book3]" by simp
  with m have c2: "[book1, book3] = page_rows ((1 - 1) * 10) 10 [book1, book3]" by simp
  have c3: "map id_category [book1, book3] = [''c1'', ''c2'']"
    by (simp add: catalogue_defs)
  from h0 h1 c1 h2 o' c2 c3 show ?thesis by blast
qed

subsection \<open>The sort specification\<close>

text \<open>
  C7, as claimed: the key \<open>name\<close> sorts by the title of the book. The code sorts by
  the field \<open>product_name\<close>, which is not the field \<open>title\<close> that \<open>createBook\<close>
  writes: in \<open>shop\<close> the listing by \<open>name\<close>, ascending, returns Emma before Ajax.
\<close>

theorem findAllBooks_name_sort_not_by_title:
  "findAllBooks no_faults shop 1 10 ''name'' ''asc'' ''none'' =
     Inr \<lparr>totalBooks = Some 2, totalPages = Some (Num 1),
          rows = [\<lparr>row = book1, mainCategory = Some cat1, subCategory = None\<rparr>,
                  \<lparr>row = book3, mainCategory = Some cat2, subCategory = None\<rparr>]\<rparr> \<and>
   map title [book1, book3] = [''Emma'', ''Ajax''] \<and>
   \<not> sorted (map title [book1, book3]) \<and>
   map product_name [book1, book3] = [Some ''Austen novel'', Some ''Greek play'']"
proof -
  have "findAllBooks no_faults shop 1 10 ''name'' ''asc'' ''none'' =
     Inr \<lparr>totalBooks = Some 2, totalPages = Some (Num 1),
          rows = [\<lparr>row = book1, mainCategory = Some cat1, subCategory = None\<rparr>,
                  \<lparr>row = book3, mainCategory = Some cat2, subCategory = None\<rparr>]\<rparr>"
    by code_simp
  moreover have "map title [book1, book3] = [''Emma'', ''Ajax'']"
    by (simp add: catalogue_defs)
  moreover have "\<not> sorted (map title [book1, book3])"
    by code_simp
  moreover have "map product_name [book1, book3] = [Some ''Austen novel'', Some ''Greek play'']"
    by (simp add: catalogue_defs)
  ultimately show ?thesis by blast
qed

text \<open>
  C7, amended: the \<open>orderBy\<close> that \<open>findAllBooks\<close> sends is \<open>product_name\<close> for the
  key \<open>name\<close>, \<open>final_price\<close> for \<open>price\<close> and \<open>id_category\<close> for \<open>category\<close>, each
  with the direction of the caller, and none for \<open>none\<close> and for every other key.
  Accordingly the page of a result is cut from a rearrangement of the matching rows
  that is in the order of the product name, of the final price or of the
  main-category identifier, ascending or descending, and from the matching rows in
  the store's own order when there is no \<open>orderBy\<close>. The title plays no part.
\<close>

theorem findAllBooks_sort_specification:
  "fm_orderBy (findMany_query page perPage fk so cid) = orderBy fk so \<and>
   orderBy ''name'' so = Some (''product_name'', so) \<and>
   orderBy ''price'' so = Some (''final_price'', so) \<and>
   orderBy ''category'' so = Some (''id_category'', so) \<and>
   orderBy ''none'' so = None \<and>
   (fk \<noteq> ''name'' \<and> fk \<noteq> ''price'' \<and> fk \<noteq> ''category'' \<longrightarrow> orderBy fk so = None) \<and>
   (findAllBooks faults w page perPage fk so cid = Inr p \<longrightarrow>
      (\<exists>ordered.
         map row (rows p) = page_rows ((page - 1) * perPage) perPage ordered \<and>
         set ordered = set (filter (matches (whereClause cid)) (books w)) \<and>
         length ordered = length (filter (matches (whereClause cid)) (books w)) \<and>
         (if fk = ''name''
          then (so = ''asc'' \<or> so = ''desc'') \<and>
               sorted (direction so (map (\<lambda>b. sort_value w (product_name b)) ordered))
          else if fk = ''price''
          then (so = ''asc'' \<or> so = ''desc'') \<and>
               sorted (direction so (map (\<lambda>b. sort_value w (final_price b)) ordered))
          else if fk = ''category''
          then (so = ''asc'' \<or> so = ''desc'') \<and>
               sorted (direction so (map id_category ordered))
          else ordered = filter (matches (whereClause cid)) (books w))))"
proof (intro conjI impI)
  assume a: "findAllBooks faults w page perPage fk so cid = Inr p"
  let ?M = "filter (matches (whereClause cid)) (books w)"
  from findAllBooks_page [OF a] obtain ordered where
    o: "order_rows w (orderBy fk so) ?M = Inr ordered"
    and r: "rows p = map (include_categories w True False)
                      (page_rows ((page - 1) * perPage) perPage ordered)"
    by blast
  from r have m: "map row (rows p) = page_rows ((page - 1) * perPage) perPage ordered"
    by simp
  have k: "if fk = ''name''
          then (so = ''asc'' \<or> so = ''desc'') \<and>
               sorted (direction so (map (\<lambda>b. sort_value w (product_name b)) ordered))
          else if fk = ''price''
          then (so = ''asc'' \<or> so = ''desc'') \<and>
               sorted (direction so (map (\<lambda>b. sort_value w (final_price b)) ordered))
          else if fk = ''category''
          then (so = ''asc'' \<or> so = ''desc'') \<and>
               sorted (direction so (map id_category ordered))
          else ordered = ?M"
  proof (cases "fk = ''name''")
    case True
    with o have "order_rows w (Some (''product_name'', so)) ?M = Inr ordered"
      by (simp add: orderBy_def)
    from order_rows_sorted [OF this] True show ?thesis by simp
  next
    case n: False
    show ?thesis
    proof (cases "fk = ''price''")
      case True
      with o have "order_rows w (Some (''final_price'', so)) ?M = Inr ordered"
        by (simp add: orderBy_def)
      from order_rows_sorted [OF this] True show ?thesis by simp
    next
      case pr: False
      show ?thesis
      proof (cases "fk = ''category''")
        case True
        with o have "order_rows w (Some (''id_category'', so)) ?M = Inr ordered"
          by (simp add: orderBy_def)
        from order_rows_sorted [OF this] True show ?thesis by simp
      next
        case False
        with n pr have "orderBy fk so = None" by (simp add: orderBy_def)
        with o have "ordered = ?M" by (simp add: order_rows_def)
        with n pr False show ?thesis by simp
      qed
    qed
  qed
  from order_rows_set [OF o] have s: "set ordered = set ?M" .
  from o have l: "length ordered = length ?M"
    by (auto simp: order_rows_def direction_def split: option.splits prod.splits if_splits)
  show "\<exists>ordered.
         map row (rows p) = page_rows ((page - 1) * perPage) perPage ordered \<and>
         set ordered = set ?M \<and> length ordered = length ?M \<and>
         (if fk = ''name''
          then (so = ''asc'' \<or> so = ''desc'') \<and>
               sorted (direction so (map (\<lambda>b. sort_value w (product_name b)) ordered))
          else if fk = ''price''
          then (so = ''asc'' \<or> so = ''desc'') \<and>
               sorted (direction so (map (\<lambda>b. sort_value w (final_price b)) ordered))
          else if fk = ''category''
          then (so = ''asc'' \<or> so = ''desc'') \<and>
               sorted (direction so (map id_category ordered))
          else ordered = ?M)"
    by (rule exI [of _ ordered]) (rule conjI m s l k)+
qed (simp_all add: orderBy_def)

theorem findAllBooks_sort_specification_witness:
  "(findAllBooks no_faults shop 1 10 ''name'' ''desc'' ''none'' =
      Inr \<lparr>totalBooks = Some 2, totalPages = Some (Num 1),
           rows = [\<lparr>row = book3, mainCategory = Some cat2, subCategory = None\<rparr>,
                   \<lparr>row = book1, mainCategory = Some cat1, subCategory = None\<rparr>]\<rparr> \<and>
    sorted (direction ''desc'' (map (\<lambda>b. sort_value shop (product_name b)) [book3, book1]))) \<and>
   (findAllBooks no_faults shop_nulls_last 1 10 ''price'' ''asc'' ''none'' =
      Inr \<lparr>totalBooks = Some 2, totalPages = Some (Num 1),
           rows = [\<lparr>row = book1, mainCategory = Some cat1, subCategory = None\<rparr>,
                   \<lparr>row = book3, mainCategory = Some cat2, subCategory = None\<rparr>]\<rparr> \<and>
    sorted (direction ''asc''
              (map (\<lambda>b. sort_value shop_nulls_last (final_price b)) [book1, book3]))) \<and>
   (findAllBooks no_faults shop 1 10 ''category'' ''desc'' ''none'' =
      Inr \<lparr>totalBooks = Some 2, totalPages = Some (Num 1),
           rows = [\<lparr>row = book3, mainCategory = Some cat2, subCategory = None\<rparr>,
                   \<lparr>row = book1, mainCategory = Some cat1, subCategory = None\<rparr>]\<rparr> \<and>
    sorted (direction ''desc'' (map id_category [book3, book1]))) \<and>
   (''author'' \<noteq> ''name'' \<and> ''author'' \<noteq> ''price'' \<and> ''author'' \<noteq> ''category'' \<and>
    orderBy ''author'' ''asc'' = None \<and>
    findAllBooks no_faults shop 1 10 ''author'' ''asc'' ''none'' =
      Inr \<lparr>totalBooks = Some 2, totalPages = Some (Num 1),
           rows = [\<lparr>row = book1, mainCategory = Some cat1, subCategory = None\<rparr>,
                   \<lparr>row = book3, mainCategory = Some cat2, subCategory = None\<rparr>]\<rparr> \<and>
    [book1, book3] = filter (matches (whereClause ''none'')) (books shop))"
proof -
  let ?p = "\<lparr>totalBooks = Some 2, totalPages = Some (Num 1),
           rows = [\<lparr>row = book1, mainCategory = Some cat1, subCategory = None\<rparr>,
                   \<lparr>row = book3, mainCategory = Some cat2, subCategory = None\<rparr>]\<rparr>"
  let ?q = "\<lparr>totalBooks = Some 2, totalPages = Some (Num 1),
           rows = [\<lparr>row = book3, mainCategory = Some cat2, subCategory = None\<rparr>,
                   \<lparr>row = book1, mainCategory = Some cat1, subCategory = None\<rparr>]\<rparr>"
  have h1: "findAllBooks no_faults shop 1 10 ''name'' ''desc'' ''none'' = Inr ?q" by code_simp
  have h2: "findAllBooks no_faults shop_nulls_last 1 10 ''price'' ''asc'' ''none'' = Inr ?p"
    by code_simp
  have h3: "findAllBooks no_faults shop 1 10 ''category'' ''desc'' ''none'' = Inr ?q"
    by code_simp
  have h4: "findAllBooks no_faults shop 1 10 ''author'' ''asc'' ''none'' = Inr ?p" by code_simp
  have h5: "''author'' \<noteq> ''name'' \<and> ''author'' \<noteq> ''price'' \<and> ''author'' \<noteq> ''category''"
    by simp
  have n: "length (filter (matches (whereClause ''none'')) (books shop)) = 2"
    "length (filter (matches (whereClause ''none'')) (books shop_nulls_last)) = 2"
    by (simp_all add: matches_def whereClause_def catalogue_defs)
  have whole: "xs = ys" if "ys = page_rows ((1 - 1) * 10) 10 xs" and "length xs = 2"
    for xs ys :: "book list"
    using that by (simp add: page_rows_def)
  note t = findAllBooks_sort_specification [THEN conjunct2, THEN conjunct2, THEN conjunct2,
      THEN conjunct2, THEN conjunct2]
  from t [THEN conjunct2, THEN mp, OF h1] n obtain o1 where
    "[book3, book1] = page_rows ((1 - 1) * 10) 10 o1" and "length o1 = 2"
    and "sorted (direction ''desc'' (map (\<lambda>b. sort_value shop (product_name b)) o1))"
    by auto
  with whole [of "[book3, book1]" o1]
  have c1: "sorted (direction ''desc'' (map (\<lambda>b. sort_value shop (product_name b)) [book3, book1]))"
    by simp
  from t [THEN conjunct2, THEN mp, OF h2] n obtain o2 where
    "[book1, book3] = page_rows ((1 - 1) * 10) 10 o2" and "length o2 = 2"
    and "sorted (direction ''asc''
              (map (\<lambda>b. sort_value shop_nulls_last (final_price b)) o2))"
    by auto
  with whole [of "[book1, book3]" o2]
  have c2: "sorted (direction ''asc''
              (map (\<lambda>b. sort_value shop_nulls_last (final_price b)) [book1, book3]))"
    by simp
  from t [THEN conjunct2, THEN mp, OF h3] n obtain o3 where
    "[book3, book1] = page_rows ((1 - 1) * 10) 10 o3" and "length o3 = 2"
    and "sorted (direction ''desc'' (map id_category o3))"
    by auto
  with whole [of "[book3, book1]" o3]
  have c3: "sorted (direction ''desc'' (map id_category [book3, book1]))"
    by simp
  from t [THEN conjunct2, THEN mp, OF h4] n obtain o4 where
    "[book1, book3] = page_rows ((1 - 1) * 10) 10 o4" and "length o4 = 2"
    and "o4 = filter (matches (whereClause ''none'')) (books shop)"
    by auto
  with whole [of "[book1, book3]" o4]
  have c4: "[book1, book3] = filter (matches (whereClause ''none'')) (books shop)"
    by simp
  note c5 = t [THEN conjunct1, THEN mp, OF h5]
  from h1 c1 h2 c2 h3 c3 h4 h5 c4 c5 show ?thesis by blast
qed

subsection \<open>The errors of createBook\<close>

text \<open>
  C8, as claimed: a missing main category or a missing supplied sub-category gives
  the not-found exception unchanged, and every other failure during \<open>createBook\<close>
  is wrapped into the internal error with the fixed message. The image is written
  before the \<open>try\<close> block, so a failure of that write is not wrapped: with a full
  disk and an existing category the caller receives the error of \<open>fs\<close> itself.
\<close>

theorem createBook_image_failure_unwrapped:
  "find_category shop (dto_categoryId (new_book ''c1'' None)) = Some cat1 \<and>
   fst (createBook disk_full shop ''b4'' (new_book ''c1'' None) (Some cover)) =
     Inl (Error ''ENOSPC: no space left on device'') \<and>
   fst (createBook disk_full shop ''b4'' (new_book ''c1'' None) (Some cover)) \<noteq>
     Inl (InternalServerErrorException ''Failed to create a new book!'')"
  by (simp add: createBook_def createBook_image_def fs_mkdirSync_def fs_writeFileSync_def
      find_category_def catalogue_defs)

text \<open>
  C8, amended: once the image step has gone through (no image, or the image is
  written), a missing main category and a missing supplied sub-category give their
  not-found exceptions unchanged; every error that a call to the store throws inside
  the \<open>try\<close> block (a failing lookup of the main or of the sub-category, a failing
  insert, a duplicate key) is wrapped into the internal error
  \<open>Failed to create a new book!\<close>; and \<open>createBook\<close> throws nothing else. An error
  of the image step, thrown while the upload directory is created or the file is
  written, reaches the caller as it is.
\<close>

theorem createBook_errors:
  "(createBook_image faults w bookImage = (Inr imageUrl, w1) \<longrightarrow>
      (faults (BookCategory_findUnique (dto_categoryId d)) = None \<and>
       find_category w (dto_categoryId d) = None \<longrightarrow>
         fst (createBook faults w new_id d bookImage) =
           Inl (NotFoundException
                  (''Main category with ID '' @ dto_categoryId d @ '' not found''))) \<and>
      (faults (BookCategory_findUnique (dto_categoryId d)) = None \<and>
       find_category w (dto_categoryId d) \<noteq> None \<and>
       truthy (dto_subCategoryId d) = Some s \<and>
       faults (BookCategory_findUnique s) = None \<and> find_category w s = None \<longrightarrow>
         fst (createBook faults w new_id d bookImage) =
           Inl (NotFoundException (''Sub category with ID '' @ s @ '' not found''))) \<and>
      (faults (BookCategory_findUnique (dto_categoryId d)) \<noteq> None \<longrightarrow>
         fst (createBook faults w new_id d bookImage) =
           Inl (InternalServerErrorException ''Failed to create a new book!'')) \<and>
      (faults (BookCategory_findUnique (dto_categoryId d)) = None \<and>
       find_category w (dto_categoryId d) \<noteq> None \<and>
       truthy (dto_subCategoryId d) = Some s \<and>
       faults (BookCategory_findUnique s) \<noteq> None \<longrightarrow>
         fst (createBook faults w new_id d bookImage) =
           Inl (InternalServerErrorException ''Failed to create a new book!'')) \<and>
      (faults (BookCategory_findUnique (dto_categoryId d)) = None \<and>
       find_category w (dto_categoryId d) \<noteq> None \<and>
       (truthy (dto_subCategoryId d) = None \<or>
        (\<exists>s. truthy (dto_subCategoryId d) = Some s \<and>
             faults (BookCategory_findUnique s) = None \<and> find_category w s \<noteq> None)) \<and>
       (faults Book_create \<noteq> None \<or> new_id \<in> set (map book_id (books w))) \<longrightarrow>
         fst (createBook faults w new_id d bookImage) =
           Inl (InternalServerErrorException ''Failed to create a new book!'')) \<and>
      (fst (createBook_try faults w1 new_id d imageUrl) = Inl (Error m) \<longrightarrow>
         fst (createBook faults w new_id d bookImage) =
           Inl (InternalServerErrorException ''Failed to create a new book!'')) \<and>
      (fst (createBook faults w new_id d bookImage) = Inl e \<longrightarrow>
         e = NotFoundException (''Main category with ID '' @ dto_categoryId d @ '' not found'') \<or>
         (\<exists>s. truthy (dto_subCategoryId d) = Some s \<and>
              e = NotFoundException (''Sub category with ID '' @ s @ '' not found'')) \<or>
         e = InternalServerErrorException ''Failed to create a new book!'')) \<and>
   (createBook_image faults w bookImage = (Inl e, w1) \<longrightarrow>
      createBook faults w new_id d bookImage = (Inl e, w1)) \<and>
   (bookImage = Some f \<and> upload_dir w = None \<and> faults Fs_mkdirSync = Some m \<longrightarrow>
      fst (createBook faults w new_id d bookImage) = Inl (Error m)) \<and>
   (bookImage = Some f \<and> (upload_dir w = None \<longrightarrow> faults Fs_mkdirSync = None) \<and>
    faults (Fs_writeFileSync (originalname f)) = Some m \<longrightarrow>
      fst (createBook faults w new_id d bookImage) = Inl (Error m))"
proof (intro conjI)
  show "createBook_image faults w bookImage = (Inr imageUrl, w1) \<longrightarrow>
      (faults (BookCategory_findUnique (dto_categoryId d)) = None \<and>
       find_category w (dto_categoryId d) = None \<longrightarrow>
         fst (createBook faults w new_id d bookImage) =
           Inl (NotFoundException
                  (''Main category with ID '' @ dto_categoryId d @ '' not found''))) \<and>
      (faults (BookCategory_findUnique (dto_categoryId d)) = None \<and>
       find_category w (dto_categoryId d) \<noteq> None \<and>
       truthy (dto_subCategoryId d) = Some s \<and>
       faults (BookCategory_findUnique s) = None \<and> find_category w s = None \<longrightarrow>
         fst (createBook faults w new_id d bookImage) =
           Inl (NotFoundException (''Sub category with ID '' @ s @ '' not found''))) \<and>
      (faults (BookCategory_findUnique (dto_categoryId d)) \<noteq> None \<longrightarrow>
         fst (createBook faults w new_id d bookImage) =
           Inl (InternalServerErrorException ''Failed to create a new book!'')) \<and>
      (faults (BookCategory_findUnique (dto_categoryId d)) = None \<and>
       find_category w (dto_categoryId d) \<noteq> None \<and>
       truthy (dto_subCategoryId d) = Some s \<and>
       faults (BookCategory_findUnique s) \<noteq> None \<longrightarrow>
         fst (createBook faults w new_id d bookImage) =
           Inl (InternalServerErrorException ''Failed to create a new book!'')) \<and>
      (faults (BookCategory_findUnique (dto_categoryId d)) = None \<and>
       find_category w (dto_categoryId d) \<noteq> None \<and>
       (truthy (dto_subCategoryId d) = None \<or>
        (\<exists>s. truthy (dto_subCategoryId d) = Some s \<and>
             faults (BookCategory_findUnique s) = None \<and> find_category w s \<noteq> None)) \<and>
       (faults Book_create \<noteq> None \<or> new_id \<in> set (map book_id (books w))) \<longrightarrow>
         fst (createBook faults w new_id d bookImage) =
           Inl (InternalServerErrorException ''Failed to create a new book!'')) \<and>
      (fst (createBook_try faults w1 new_id d imageUrl) = Inl (Error m) \<longrightarrow>
         fst (createBook faults w new_id d bookImage) =
           Inl (InternalServerErrorException ''Failed to create a new book!'')) \<and>
      (fst (createBook faults w new_id d bookImage) = Inl e \<longrightarrow>
         e = NotFoundException (''Main category with ID '' @ dto_categoryId d @ '' not found'') \<or>
         (\<exists>s. truthy (dto_subCategoryId d) = Some s \<and>
              e = NotFoundException (''Sub category with ID '' @ s @ '' not found'')) \<or>
         e = InternalServerErrorException ''Failed to create a new book!'')"
  proof
    assume img: "createBook_image faults w bookImage = (Inr imageUrl, w1)"
    note cb = createBook_after_image [OF img, of new_id d]
    from createBook_image_tables [of faults w bookImage] img
    have tb: "books w1 = books w" and tc: "categories w1 = categories w" by simp_all
    from tc have fc: "find_category w1 = find_category w" by (rule find_category_cong)
    have 1: "faults (BookCategory_findUnique (dto_categoryId d)) = None \<and>
        find_category w (dto_categoryId d) = None \<longrightarrow>
        fst (createBook faults w new_id d bookImage) =
         Inl (NotFoundException (''Main category with ID '' @ dto_categoryId d @ '' not found''))"
      by (simp add: cb createBook_try_def bookCategory_findUnique_def fc)
    have 2: "faults (BookCategory_findUnique (dto_categoryId d)) = None \<and>
       find_category w (dto_categoryId d) \<noteq> None \<and>
       truthy (dto_subCategoryId d) = Some s \<and>
       faults (BookCategory_findUnique s) = None \<and> find_category w s = None \<longrightarrow>
        fst (createBook faults w new_id d bookImage) =
         Inl (NotFoundException (''Sub category with ID '' @ s @ '' not found''))"
      by (auto simp: cb createBook_try_def bookCategory_findUnique_def fc)
    have 3: "faults (BookCategory_findUnique (dto_categoryId d)) \<noteq> None \<longrightarrow>
        fst (createBook faults w new_id d bookImage) =
         Inl (InternalServerErrorException ''Failed to create a new book!'')"
      by (auto simp: cb createBook_try_def bookCategory_findUnique_def)
    have 4: "faults (BookCategory_findUnique (dto_categoryId d)) = None \<and>
       find_category w (dto_categoryId d) \<noteq> None \<and>
       truthy (dto_subCategoryId d) = Some s \<and>
       faults (BookCategory_findUnique s) \<noteq> None \<longrightarrow>
        fst (createBook faults w new_id d bookImage) =
         Inl (InternalServerErrorException ''Failed to create a new book!'')"
      by (auto simp: cb createBook_try_def bookCategory_findUnique_def fc)
    have 5: "faults (BookCategory_findUnique (dto_categoryId d)) = None \<and>
       find_category w (dto_categoryId d) \<noteq> None \<and>
       (truthy (dto_subCategoryId d) = None \<or>
        (\<exists>s. truthy (dto_subCategoryId d) = Some s \<and>
             faults (BookCategory_findUnique s) = None \<and> find_category w s \<noteq> None)) \<and>
       (faults Book_create \<noteq> None \<or> new_id \<in> set (map book_id (books w))) \<longrightarrow>
        fst (createBook faults w new_id d bookImage) =
         Inl (InternalServerErrorException ''Failed to create a new book!'')"
      by (auto simp: cb createBook_try_def bookCategory_findUnique_def fc book_create_def tb
          split: option.splits)
    have 6: "fst (createBook_try faults w1 new_id d imageUrl) = Inl (Error m) \<longrightarrow>
        fst (createBook faults w new_id d bookImage) =
         Inl (InternalServerErrorException ''Failed to create a new book!'')"
      by (cases "createBook_try faults w1 new_id d imageUrl") (simp add: cb)
    have 7: "fst (createBook faults w new_id d bookImage) = Inl e \<longrightarrow>
       e = NotFoundException (''Main category with ID '' @ dto_categoryId d @ '' not found'') \<or>
       (\<exists>s. truthy (dto_subCategoryId d) = Some s \<and>
            e = NotFoundException (''Sub category with ID '' @ s @ '' not found'')) \<or>
       e = InternalServerErrorException ''Failed to create a new book!''"
    proof
      assume a: "fst (createBook faults w new_id d bookImage) = Inl e"
      show "e = NotFoundException (''Main category with ID '' @ dto_categoryId d @ '' not found'') \<or>
       (\<exists>s. truthy (dto_subCategoryId d) = Some s \<and>
            e = NotFoundException (''Sub category with ID '' @ s @ '' not found'')) \<or>
       e = InternalServerErrorException ''Failed to create a new book!''"
      proof (cases "createBook_try faults w1 new_id d imageUrl")
        case (Pair res w2)
        show ?thesis
        proof (cases res)
          case (Inr b)
          with Pair a show ?thesis by (simp add: cb)
        next
          case (Inl x)
          with Pair have "fst (createBook_try faults w1 new_id d imageUrl) = Inl x" by simp
          from createBook_try_error [OF this] Inl Pair a show ?thesis
            by (auto simp: cb)
        qed
      qed
    qed
    show "(faults (BookCategory_findUnique (dto_categoryId d)) = None \<and>
       find_category w (dto_categoryId d) = None \<longrightarrow>
         fst (createBook faults w new_id d bookImage) =
           Inl (NotFoundException
                  (''Main category with ID '' @ dto_categoryId d @ '' not found''))) \<and>
      (faults (BookCategory_findUnique (dto_categoryId d)) = None \<and>
       find_category w (dto_categoryId d) \<noteq> None \<and>
       truthy (dto_subCategoryId d) = Some s \<and>
       faults (BookCategory_findUnique s) = None \<and> find_category w s = None \<longrightarrow>
         fst (createBook faults w new_id d bookImage) =
           Inl (NotFoundException (''Sub category with ID '' @ s @ '' not found''))) \<and>
      (faults (BookCategory_findUnique (dto_categoryId d)) \<noteq> None \<longrightarrow>
         fst (createBook faults w new_id d bookImage) =
           Inl (InternalServerErrorException ''Failed to create a new book!'')) \<and>
      (faults (BookCategory_findUnique (dto_categoryId d)) = None \<and>
       find_category w (dto_categoryId d) \<noteq> None \<and>
       truthy (dto_subCategoryId d) = Some s \<and>
       faults (BookCategory_findUnique s) \<noteq> None \<longrightarrow>
         fst (createBook faults w new_id d bookImage) =
           Inl (InternalServerErrorException ''Failed to create a new book!'')) \<and>
      (faults (BookCategory_findUnique (dto_categoryId d)) = None \<and>
       find_category w (dto_categoryId d) \<noteq> None \<and>
       (truthy (dto_subCategoryId d) = None \<or>
        (\<exists>s. truthy (dto_subCategoryId d) = Some s \<and>
             faults (BookCategory_findUnique s) = None \<and> find_category w s \<noteq> None)) \<and>
       (faults Book_create \<noteq> None \<or> new_id \<in> set (map book_id (books w))) \<longrightarrow>
         fst (createBook faults w new_id d bookImage) =
           Inl (InternalServerErrorException ''Failed to create a new book!'')) \<and>
      (fst (createBook_try faults w1 new_id d imageUrl) = Inl (Error m) \<longrightarrow>
         fst (createBook faults w new_id d bookImage) =
           Inl (InternalServerErrorException ''Failed to create a new book!'')) \<and>
      (fst (createBook faults w new_id d bookImage) = Inl e \<longrightarrow>
         e = NotFoundException (''Main category with ID '' @ dto_categoryId d @ '' not found'') \<or>
         (\<exists>s. truthy (dto_subCategoryId d) = Some s \<and>
              e = NotFoundException (''Sub category with ID '' @ s @ '' not found'')) \<or>
         e = InternalServerErrorException ''Failed to create a new book!'')"
      by (rule conjI 1 2 3 4 5 6 7)+
  qed
next
  show "createBook_image faults w bookImage = (Inl e, w1) \<longrightarrow>
      createBook faults w new_id d bookImage = (Inl e, w1)"
    by (simp add: createBook_def)
next
  show "bookImage = Some f \<and> upload_dir w = None \<and> faults Fs_mkdirSync = Some m \<longrightarrow>
      fst (createBook faults w new_id d bookImage) = Inl (Error m)"
    by (simp add: createBook_def createBook_image_def fs_mkdirSync_def)
next
  show "bookImage = Some f \<and> (upload_dir w = None \<longrightarrow> faults Fs_mkdirSync = None) \<and>
    faults (Fs_writeFileSync (originalname f)) = Some m \<longrightarrow>
      fst (createBook faults w new_id d bookImage) = Inl (Error m)"
    by (cases "upload_dir w")
       (simp_all add: createBook_def createBook_image_def fs_mkdirSync_def fs_writeFileSync_def)
qed

theorem createBook_errors_witness:
  "(createBook_image no_faults shop None = (Inr None, shop) \<and>
    no_faults (BookCategory_findUnique ''c9'') = None \<and> find_category shop ''c9'' = None \<and>
    fst (createBook no_faults shop ''b4'' (new_book ''c9'' None) None) =
      Inl (NotFoundException ''Main category with ID c9 not found'')) \<and>
   (no_faults (BookCategory_findUnique ''c1'') = None \<and> find_category shop ''c1'' \<noteq> None \<and>
    truthy (Some ''c8'') = Some ''c8'' \<and>
    no_faults (BookCategory_findUnique ''c8'') = None \<and> find_category shop ''c8'' = None \<and>
    fst (createBook no_faults shop ''b4'' (new_book ''c1'' (Some ''c8'')) None) =
      Inl (NotFoundException ''Sub category with ID c8 not found'')) \<and>
   (createBook_image lookup_fault shop None = (Inr None, shop) \<and>
    lookup_fault (BookCategory_findUnique ''c1'') \<noteq> None \<and>
    fst (createBook_try lookup_fault shop ''b4'' (new_book ''c1'' None) None) =
      Inl (Error ''connection lost'') \<and>
    fst (createBook lookup_fault shop ''b4'' (new_book ''c1'' None) None) =
      Inl (InternalServerErrorException ''Failed to create a new book!'')) \<and>
   (createBook_image sub_lookup_fault shop None = (Inr None, shop) \<and>
    sub_lookup_fault (BookCategory_findUnique ''c1'') = None \<and>
    truthy (Some ''c2'') = Some ''c2'' \<and>
    sub_lookup_fault (BookCategory_findUnique ''c2'') \<noteq> None \<and>
    fst (createBook sub_lookup_fault shop ''b4'' (new_book ''c1'' (Some ''c2'')) None) =
      Inl (InternalServerErrorException ''Failed to create a new book!'')) \<and>
   (createBook_image insert_fault shop None = (Inr None, shop) \<and>
    insert_fault (BookCategory_findUnique ''c1'') = None \<and>
    insert_fault (BookCategory_findUnique ''c2'') = None \<and>
    find_category shop ''c2'' \<noteq> None \<and> insert_fault Book_create \<noteq> None \<and>
    fst (createBook insert_fault shop ''b4'' (new_book ''c1'' (Some ''c2'')) None) =
      Inl (InternalServerErrorException ''Failed to create a new book!'')) \<and>
   (truthy None = None \<and> ''b1'' \<in> set (map book_id (books shop)) \<and>
    fst (createBook no_faults shop ''b1'' (new_book ''c1'' None) None) =
      Inl (InternalServerErrorException ''Failed to create a new book!'')) \<and>
   (NotFoundException ''Main category with ID c9 not found'' =
      NotFoundException
        (''Main category with ID '' @ dto_categoryId (new_book ''c9'' None) @ '' not found'') \<or>
    (\<exists>s. truthy (dto_subCategoryId (new_book ''c9'' None)) = Some s \<and>
         NotFoundException ''Main category with ID c9 not found'' =
           NotFoundException (''Sub category with ID '' @ s @ '' not found'')) \<or>
    NotFoundException ''Main category with ID c9 not found'' =
      InternalServerErrorException ''Failed to create a new book!'') \<and>
   (createBook_image disk_full shop (Some cover) =
      (Inl (Error ''ENOSPC: no space left on device''), shop\<lparr>upload_dir := Some Map.empty\<rparr>) \<and>
    createBook disk_full shop ''b4'' (new_book ''c1'' None) (Some cover) =
      (Inl (Error ''ENOSPC: no space left on device''), shop\<lparr>upload_dir := Some Map.empty\<rparr>)) \<and>
   (upload_dir shop = None \<and> mkdir_fault Fs_mkdirSync = Some ''EACCES: permission denied'' \<and>
    fst (createBook mkdir_fault shop ''b4'' (new_book ''c1'' None) (Some cover)) =
      Inl (Error ''EACCES: permission denied'')) \<and>
   (disk_full Fs_mkdirSync = None \<and>
    disk_full (Fs_writeFileSync (originalname cover)) = Some ''ENOSPC: no space left on device'' \<and>
    fst (createBook disk_full shop ''b4'' (new_book ''c9'' None) (Some cover)) =
      Inl (Error ''ENOSPC: no space left on device''))"
proof -
  have i1: "createBook_image no_faults shop None = (Inr None, shop)"
    and i2: "createBook_image lookup_fault shop None = (Inr None, shop)"
    and i3: "createBook_image sub_lookup_fault shop None = (Inr None, shop)"
    and i4: "createBook_image insert_fault shop None = (Inr None, shop)"
    by (simp_all add: createBook_image_def)
  note a = createBook_errors [where d = "new_book ''c9'' None" and new_id = "''b4''"
      and e = "NotFoundException ''Main category with ID c9 not found''",
      THEN conjunct1, THEN mp, OF i1]
  note b = createBook_errors [where d = "new_book ''c1'' (Some ''c8'')" and new_id = "''b4''" and s = "''c8''",
      THEN conjunct1, THEN mp, OF i1]
  note c = createBook_errors [where d = "new_book ''c1'' None" and new_id = "''b4''" and m = "''connection lost''",
      THEN conjunct1, THEN mp, OF i2]
  note d = createBook_errors [where d = "new_book ''c1'' (Some ''c2'')" and new_id = "''b4''" and s = "''c2''",
      THEN conjunct1, THEN mp, OF i3]
  note e = createBook_errors [where d = "new_book ''c1'' (Some ''c2'')" and new_id = "''b4''",
      THEN conjunct1, THEN mp, OF i4]
  note f = createBook_errors [where d = "new_book ''c1'' None" and new_id = "''b1''",
      THEN conjunct1, THEN mp, OF i1]
  have h1: "no_faults (BookCategory_findUnique ''c9'') = None \<and> find_category shop ''c9'' = None"
    by (simp add: find_category_def catalogue_defs)
  from a [THEN conjunct1, THEN mp] h1
  have c1: "fst (createBook no_faults shop ''b4'' (new_book ''c9'' None) None) =
      Inl (NotFoundException ''Main category with ID c9 not found'')"
    by (simp add: new_book_def)
  have h2: "no_faults (BookCategory_findUnique ''c1'') = None \<and> find_category shop ''c1'' \<noteq> None \<and>
    truthy (Some ''c8'') = Some ''c8'' \<and>
    no_faults (BookCategory_findUnique ''c8'') = None \<and> find_category shop ''c8'' = None"
    by (simp add: find_category_def truthy_def catalogue_defs)
  from b [THEN conjunct2, THEN conjunct1, THEN mp] h2
  have c2: "fst (createBook no_faults shop ''b4'' (new_book ''c1'' (Some ''c8'')) None) =
      Inl (NotFoundException ''Sub category with ID c8 not found'')"
    by (simp add: new_book_def)
  have h3: "lookup_fault (BookCategory_findUnique ''c1'') \<noteq> None"
    by (simp add: lookup_fault_def)
  from c [THEN conjunct2, THEN conjunct2, THEN conjunct1, THEN mp] h3
  have c3: "fst (createBook lookup_fault shop ''b4'' (new_book ''c1'' None) None) =
      Inl (InternalServerErrorException ''Failed to create a new book!'')"
    by (simp add: new_book_def)
  have h3': "fst (createBook_try lookup_fault shop ''b4'' (new_book ''c1'' None) None) =
      Inl (Error ''connection lost'')"
    by (simp add: createBook_try_def bookCategory_findUnique_def catalogue_defs)
  note c3' = c [THEN conjunct2, THEN conjunct2, THEN conjunct2, THEN conjunct2, THEN conjunct2,
      THEN conjunct1, THEN mp, OF h3']
  have h4: "sub_lookup_fault (BookCategory_findUnique ''c1'') = None \<and>
    truthy (Some ''c2'') = Some ''c2'' \<and>
    sub_lookup_fault (BookCategory_findUnique ''c2'') \<noteq> None"
    by (simp add: truthy_def sub_lookup_fault_def)
  have fc1: "find_category shop ''c1'' \<noteq> None" and fc2: "find_category shop ''c2'' \<noteq> None"
    by (simp_all add: find_category_def catalogue_defs)
  from d [THEN conjunct2, THEN conjunct2, THEN conjunct2, THEN conjunct1, THEN mp] h4 fc1
  have c4: "fst (createBook sub_lookup_fault shop ''b4'' (new_book ''c1'' (Some ''c2'')) None) =
      Inl (InternalServerErrorException ''Failed to create a new book!'')"
    by (simp add: new_book_def)
  have h5: "insert_fault (BookCategory_findUnique ''c1'') = None \<and>
    insert_fault (BookCategory_findUnique ''c2'') = None \<and> insert_fault Book_create \<noteq> None"
    by (simp add: insert_fault_def)
  from h5 h4 fc1 fc2
  have "insert_fault (BookCategory_findUnique (dto_categoryId (new_book ''c1'' (Some ''c2'')))) =
      None \<and>
     find_category shop (dto_categoryId (new_book ''c1'' (Some ''c2''))) \<noteq> None \<and>
     (truthy (dto_subCategoryId (new_book ''c1'' (Some ''c2''))) = None \<or>
      (\<exists>s. truthy (dto_subCategoryId (new_book ''c1'' (Some ''c2''))) = Some s \<and>
           insert_fault (BookCategory_findUnique s) = None \<and> find_category shop s \<noteq> None)) \<and>
     (insert_fault Book_create \<noteq> None \<or> ''b4'' \<in> set (map book_id (books shop)))"
    by (simp add: new_book_def)
  note c5 = e [THEN conjunct2, THEN conjunct2, THEN conjunct2, THEN conjunct2, THEN conjunct1,
      THEN mp, OF this]
  have h6: "truthy None = None \<and> ''b1'' \<in> set (map book_id (books shop))"
    by (simp add: truthy_def catalogue_defs)
  from h2 h6 fc1
  have "no_faults (BookCategory_findUnique (dto_categoryId (new_book ''c1'' None))) = None \<and>
     find_category shop (dto_categoryId (new_book ''c1'' None)) \<noteq> None \<and>
     (truthy (dto_subCategoryId (new_book ''c1'' None)) = None \<or>
      (\<exists>s. truthy (dto_subCategoryId (new_book ''c1'' None)) = Some s \<and>
           no_faults (BookCategory_findUnique s) = None \<and> find_category shop s \<noteq> None)) \<and>
     (no_faults Book_create \<noteq> None \<or> ''b1'' \<in> set (map book_id (books shop)))"
    by (simp add: new_book_def)
  note c6 = f [THEN conjunct2, THEN conjunct2, THEN conjunct2, THEN conjunct2, THEN conjunct1,
      THEN mp, OF this]
  note c7 = a [THEN conjunct2, THEN conjunct2, THEN conjunct2, THEN conjunct2, THEN conjunct2,
      THEN conjunct2, THEN mp, OF c1]
  have h8: "createBook_image disk_full shop (Some cover) =
      (Inl (Error ''ENOSPC: no space left on device''), shop\<lparr>upload_dir := Some Map.empty\<rparr>)"
    by (simp add: createBook_image_def fs_mkdirSync_def fs_writeFileSync_def catalogue_defs)
  note c8 = createBook_errors [where new_id = "''b4''" and d = "new_book ''c1'' None",
      THEN conjunct2, THEN conjunct1, THEN mp, OF h8]
  have h9: "upload_dir shop = None \<and> mkdir_fault Fs_mkdirSync = Some ''EACCES: permission denied''"
    by (simp add: catalogue_defs)
  from h9 have "Some cover = Some cover \<and> upload_dir shop = None \<and>
      mkdir_fault Fs_mkdirSync = Some ''EACCES: permission denied''"
    by simp
  note c9 = createBook_errors [where new_id = "''b4''" and d = "new_book ''c1'' None"
      and faults = mkdir_fault and w = shop and bookImage = "Some cover" and f = cover
      and m = "''EACCES: permission denied''",
      THEN conjunct2, THEN conjunct2, THEN conjunct1, THEN mp, OF this]
  have h10: "disk_full Fs_mkdirSync = None \<and>
    disk_full (Fs_writeFileSync (originalname cover)) = Some ''ENOSPC: no space left on device''"
    by (simp add: catalogue_defs)
  then have "Some cover = Some cover \<and> (upload_dir shop = None \<longrightarrow> disk_full Fs_mkdirSync = None) \<and>
    disk_full (Fs_writeFileSync (originalname cover)) = Some ''ENOSPC: no space left on device''"
    by simp
  note c10 = createBook_errors [where new_id = "''b4''" and d = "new_book ''c9'' None"
      and faults = disk_full and w = shop and bookImage = "Some cover" and f = cover
      and m = "''ENOSPC: no space left on device''",
      THEN conjunct2, THEN conjunct2, THEN conjunct2, THEN mp, OF this]
  from i1 h1 c1 h2 c2 i2 h3 h3' c3 i3 h4 c4 i4 h5 fc2 c5 h6 c6 c7 h8 c8 h9 c9 h10 c10
  show ?thesis by blast
qed

subsection \<open>Soft delete and hard delete\<close>

text \<open>
  C9. After a \<open>softDeleteBook\<close> that went through, \<open>findBook\<close> on the same
  identifier never returns a row and throws the not-found exception whenever the
  store answers, no result of \<open>findAllBooks\<close> holds a row with that identifier, and
  the table still has a row with it; after a \<open>deleteBook\<close> that went through, the
  table has no row with that identifier. Both go through for the identifier of an
  existing row when the store call does not throw.
\<close>

theorem delete_then_read:
  "(softDeleteBook faults w now i = (Inr b, w1) \<longrightarrow>
      (\<forall>r. findBook faults1 w1 i \<noteq> Inr r) \<and>
      (faults1 (Book_findUnique i) = None \<longrightarrow>
         findBook faults1 w1 i = Inl (NotFoundException ''Book not found!'')) \<and>
      (findAllBooks faults1 w1 page perPage fk so cid = Inr p \<longrightarrow>
         i \<notin> set (map (book_id \<circ> row) (rows p))) \<and>
      i \<in> set (map book_id (books w1))) \<and>
   (deleteBook faults w i = (Inr b, w1) \<longrightarrow> i \<notin> set (map book_id (books w1))) \<and>
   (i \<in> set (map book_id (books w)) \<and> faults (Book_update i) = None \<longrightarrow>
      (\<exists>b w1. softDeleteBook faults w now i = (Inr b, w1))) \<and>
   (i \<in> set (map book_id (books w)) \<and> faults (Book_delete i) = None \<longrightarrow>
      (\<exists>b w1. deleteBook faults w i = (Inr b, w1)))"
proof (intro conjI impI)
  assume a: "softDeleteBook faults w now i = (Inr b, w1)"
  note k = softDeleteBook_hides(1) [OF a]
  note fb = findBook_no_active [OF k, of faults1]
  from fb show "\<forall>r. findBook faults1 w1 i \<noteq> Inr r"
    by (simp split: option.splits)
  show "findBook faults1 w1 i = Inl (NotFoundException ''Book not found!'')"
    if "faults1 (Book_findUnique i) = None"
    using that by (simp add: fb)
  show "i \<notin> set (map (book_id \<circ> row) (rows p))"
    if "findAllBooks faults1 w1 page perPage fk so cid = Inr p"
    using k that by (rule findAllBooks_skips_id)
  show "i \<in> set (map book_id (books w1))"
    by (rule softDeleteBook_hides(2) [OF a])
next
  assume "deleteBook faults w i = (Inr b, w1)"
  then show "i \<notin> set (map book_id (books w1))" by (rule deleteBook_removes)
next
  assume "i \<in> set (map book_id (books w)) \<and> faults (Book_update i) = None"
  then show "\<exists>b w1. softDeleteBook faults w now i = (Inr b, w1)"
    by (rule softDeleteBook_succeeds)
next
  assume "i \<in> set (map book_id (books w)) \<and> faults (Book_delete i) = None"
  then show "\<exists>b w1. deleteBook faults w i = (Inr b, w1)"
    by (rule deleteBook_succeeds)
qed

theorem delete_then_read_witness:
  "(softDeleteBook no_faults shop 7 ''b1'' = (Inr (book1\<lparr>deleted_at := Some 7\<rparr>), shop_without_emma) \<and>
    no_faults (Book_findUnique ''b1'') = None \<and>
    findBook no_faults shop_without_emma ''b1'' = Inl (NotFoundException ''Book not found!'') \<and>
    findAllBooks no_faults shop_without_emma 1 10 ''none'' ''asc'' ''none'' =
      Inr \<lparr>totalBooks = Some 1, totalPages = Some (Num 1),
           rows = [\<lparr>row = book3, mainCategory = Some cat2, subCategory = None\<rparr>]\<rparr> \<and>
    ''b1'' \<notin> set (map (book_id \<circ> row)
                     [\<lparr>row = book3, mainCategory = Some cat2, subCategory = None\<rparr>]) \<and>
    ''b1'' \<in> set (map book_id (books shop_without_emma))) \<and>
   (deleteBook no_faults shop ''b1'' = (Inr book1, shop_minus_emma) \<and>
    ''b1'' \<notin> set (map book_id (books shop_minus_emma))) \<and>
   (''b1'' \<in> set (map book_id (books shop)) \<and> no_faults (Book_update ''b1'') = None \<and>
    no_faults (Book_delete ''b1'') = None \<and>
    (\<exists>b w1. softDeleteBook no_faults shop 7 ''b1'' = (Inr b, w1)) \<and>
    (\<exists>b w1. deleteBook no_faults shop ''b1'' = (Inr b, w1)))"
proof -
  let ?p = "\<lparr>totalBooks = Some 1, totalPages = Some (Num 1),
           rows = [\<lparr>row = book3, mainCategory = Some cat2, subCategory = None\<rparr>]\<rparr>"
  note t = delete_then_read [of no_faults shop 7 "''b1''" _ _ no_faults 1 10 "''none''" "''asc''"
      "''none''" ?p]
  have s: "softDeleteBook no_faults shop 7 ''b1'' =
      (Inr (book1\<lparr>deleted_at := Some 7\<rparr>), shop_without_emma)"
    by (simp add: softDeleteBook_def book_update_def shop_without_emma_def catalogue_defs)
  have d: "deleteBook no_faults shop ''b1'' = (Inr book1, shop_minus_emma)"
    by (simp add: deleteBook_def book_delete_def shop_minus_emma_def catalogue_defs)
  have f: "no_faults (Book_findUnique ''b1'') = None"
    by (simp add: no_faults_def)
  have l: "findAllBooks no_faults shop_without_emma 1 10 ''none'' ''asc'' ''none'' = Inr ?p"
    by code_simp
  have e: "''b1'' \<in> set (map book_id (books shop)) \<and> no_faults (Book_update ''b1'') = None \<and>
    no_faults (Book_delete ''b1'') = None"
    by (simp add: catalogue_defs)
  note ts = t [THEN conjunct1, THEN mp, OF s]
  note c1 = ts [THEN conjunct2, THEN conjunct1, THEN mp, OF f]
  from ts [THEN conjunct2, THEN conjunct2, THEN conjunct1, THEN mp, OF l]
  have c2: "''b1'' \<notin> set (map (book_id \<circ> row)
                     [\<lparr>row = book3, mainCategory = Some cat2, subCategory = None\<rparr>])"
    by simp
  note c3 = ts [THEN conjunct2, THEN conjunct2, THEN conjunct2]
  note c4 = t [THEN conjunct2, THEN conjunct1, THEN mp, OF d]
  from e have e1: "''b1'' \<in> set (map book_id (books shop)) \<and> no_faults (Book_update ''b1'') = None"
    and e2: "''b1'' \<in> set (map book_id (books shop)) \<and> no_faults (Book_delete ''b1'') = None"
    by simp_all
  note c5 = t [THEN conjunct2, THEN conjunct2, THEN conjunct1, THEN mp, OF e1]
  note c6 = t [THEN conjunct2, THEN conjunct2, THEN conjunct2, THEN mp, OF e2]
  from s f c1 l c2 c3 d c4 e c5 c6 show ?thesis by blast
qed

subsection \<open>The image of a rejected create\<close>

text \<open>
  C10. When \<open>createBook\<close> is given an image and the main category, or a supplied
  sub-category, does not exist: the file is in the upload directory once the image
  step is over, before the category lookups run; \<open>createBook\<close> throws the not-found
  exception; and the world it leaves behind still holds the file, with no row
  inserted.
\<close>

theorem createBook_missing_category_keeps_image:
  assumes "upload_dir w = None \<longrightarrow> faults Fs_mkdirSync = None"
    and "faults (Fs_writeFileSync (originalname f)) = None"
    and "faults (BookCategory_findUnique (dto_categoryId d)) = None"
    and "find_category w (dto_categoryId d) = None \<or>
         (\<exists>s. truthy (dto_subCategoryId d) = Some s \<and>
              faults (BookCategory_findUnique s) = None \<and> find_category w s = None)"
  shows "(\<exists>dir. upload_dir (snd (createBook_image faults w (Some f))) = Some dir \<and>
                dir (originalname f) = Some (buffer f)) \<and>
         (\<exists>m. fst (createBook faults w new_id d (Some f)) = Inl (NotFoundException m)) \<and>
         (\<exists>dir. upload_dir (snd (createBook faults w new_id d (Some f))) = Some dir \<and>
                dir (originalname f) = Some (buffer f)) \<and>
         books (snd (createBook faults w new_id d (Some f))) = books w"
proof -
  from createBook_image_written [OF assms(1,2)] obtain w1 dir where
    img: "createBook_image faults w (Some f) = (Inr (Some (originalname f)), w1)"
    and dir: "upload_dir w1 = Some dir" "dir (originalname f) = Some (buffer f)"
    by blast
  note cb = createBook_after_image [OF img, of new_id d]
  from createBook_image_tables [of faults w "Some f"] img
  have tb: "books w1 = books w" and tc: "categories w1 = categories w" by simp_all
  from tc have fc: "find_category w1 = find_category w" by (rule find_category_cong)
  have nf: "\<exists>m. fst (createBook_try faults w1 new_id d (Some (originalname f))) =
              Inl (NotFoundException m)"
  proof (cases "find_category w (dto_categoryId d)")
    case None
    with assms(3) show ?thesis
      by (simp add: createBook_try_def bookCategory_findUnique_def fc)
  next
    case (Some main_cat)
    with assms(4) obtain s where "truthy (dto_subCategoryId d) = Some s"
      and "faults (BookCategory_findUnique s) = None" and "find_category w s = None"
      by auto
    with Some assms(3) show ?thesis
      by (simp add: createBook_try_def bookCategory_findUnique_def fc)
  qed
  then obtain m where m: "fst (createBook_try faults w1 new_id d (Some (originalname f))) =
              Inl (NotFoundException m)"
    by blast
  from createBook_try_NotFound_world [OF m]
  have "createBook_try faults w1 new_id d (Some (originalname f)) = (Inl (NotFoundException m), w1)"
    using m by (cases "createBook_try faults w1 new_id d (Some (originalname f))") simp
  then have r: "createBook faults w new_id d (Some f) = (Inl (NotFoundException m), w1)"
    by (simp add: cb)
  have 1: "\<exists>dir. upload_dir (snd (createBook_image faults w (Some f))) = Some dir \<and>
                dir (originalname f) = Some (buffer f)"
    using img dir by simp
  have 2: "\<exists>m. fst (createBook faults w new_id d (Some f)) = Inl (NotFoundException m)"
    using r by simp
  have 3: "\<exists>dir. upload_dir (snd (createBook faults w new_id d (Some f))) = Some dir \<and>
                dir (originalname f) = Some (buffer f)"
    using r dir by simp
  have 4: "books (snd (createBook faults w new_id d (Some f))) = books w"
    using r tb by simp
  from 1 2 3 4 show ?thesis by (intro conjI)
qed


theorem createBook_missing_category_keeps_image_witness:
  "(upload_dir shop = None \<and> no_faults Fs_mkdirSync = None \<and>
    no_faults (Fs_writeFileSync (originalname cover)) = None \<and>
    no_faults (BookCategory_findUnique (dto_categoryId (new_book ''c9'' None))) = None \<and>
    find_category shop (dto_categoryId (new_book ''c9'' None)) = None) \<and>
   (\<exists>dir. upload_dir (snd (createBook_image no_faults shop (Some cover))) = Some dir \<and>
          dir ''emma.png'' = Some ''PNG'') \<and>
   fst (createBook no_faults shop ''b4'' (new_book ''c9'' None) (Some cover)) =
     Inl (NotFoundException ''Main category with ID c9 not found'') \<and>
   (\<exists>dir. upload_dir (snd (createBook no_faults shop ''b4'' (new_book ''c9'' None) (Some cover))) =
            Some dir \<and>
          dir ''emma.png'' = Some ''PNG'') \<and>
   books (snd (createBook no_faults shop ''b4'' (new_book ''c9'' None) (Some cover))) =
     books shop \<and>
   (no_faults (BookCategory_findUnique (dto_categoryId (new_book ''c1'' (Some ''c8'')))) = None \<and>
    truthy (dto_subCategoryId (new_book ''c1'' (Some ''c8''))) = Some ''c8'' \<and>
    no_faults (BookCategory_findUnique ''c8'') = None \<and> find_category shop ''c8'' = None) \<and>
   fst (createBook no_faults shop ''b4'' (new_book ''c1'' (Some ''c8'')) (Some cover)) =
     Inl (NotFoundException ''Sub category with ID c8 not found'') \<and>
   (\<exists>dir. upload_dir
            (snd (createBook no_faults shop ''b4'' (new_book ''c1'' (Some ''c8'')) (Some cover))) =
            Some dir \<and>
          dir ''emma.png'' = Some ''PNG'')"
proof -
  have h1: "upload_dir shop = None \<and> no_faults Fs_mkdirSync = None \<and>
    no_faults (Fs_writeFileSync (originalname cover)) = None \<and>
    no_faults (BookCategory_findUnique (dto_categoryId (new_book ''c9'' None))) = None \<and>
    find_category shop (dto_categoryId (new_book ''c9'' None)) = None"
    by (simp add: find_category_def catalogue_defs)
  have h2: "no_faults (BookCategory_findUnique (dto_categoryId (new_book ''c1'' (Some ''c8'')))) =
      None \<and>
    truthy (dto_subCategoryId (new_book ''c1'' (Some ''c8''))) = Some ''c8'' \<and>
    no_faults (BookCategory_findUnique ''c8'') = None \<and> find_category shop ''c8'' = None"
    by (simp add: find_category_def truthy_def catalogue_defs)
  have n: "originalname cover = ''emma.png''" "buffer cover = ''PNG''"
    by (simp_all add: cover_def)
  from h1 have a1: "upload_dir shop = None \<longrightarrow> no_faults Fs_mkdirSync = None"
    and a2: "no_faults (Fs_writeFileSync (originalname cover)) = None"
    and a3: "no_faults (BookCategory_findUnique (dto_categoryId (new_book ''c9'' None))) = None"
    and a4: "find_category shop (dto_categoryId (new_book ''c9'' None)) = None \<or>
         (\<exists>s. truthy (dto_subCategoryId (new_book ''c9'' None)) = Some s \<and>
              no_faults (BookCategory_findUnique s) = None \<and> find_category shop s = None)"
    by simp_all
  from h2 have b3: "no_faults (BookCategory_findUnique (dto_categoryId (new_book ''c1'' (Some ''c8'')))) =
      None"
    and b4: "find_category shop (dto_categoryId (new_book ''c1'' (Some ''c8''))) = None \<or>
         (\<exists>s. truthy (dto_subCategoryId (new_book ''c1'' (Some ''c8''))) = Some s \<and>
              no_faults (BookCategory_findUnique s) = None \<and> find_category shop s = None)"
    by simp_all
  note t1 = createBook_missing_category_keeps_image [OF a1 a2 a3 a4, of "''b4''", unfolded n]
  note t2 = createBook_missing_category_keeps_image [OF a1 a2 b3 b4, of "''b4''", unfolded n]
  have e1: "fst (createBook no_faults shop ''b4'' (new_book ''c9'' None) (Some cover)) =
     Inl (NotFoundException ''Main category with ID c9 not found'')"
    by (simp add: createBook_defs catalogue_defs)
  have e2: "fst (createBook no_faults shop ''b4'' (new_book ''c1'' (Some ''c8'')) (Some cover)) =
     Inl (NotFoundException ''Sub category with ID c8 not found'')"
    by (simp add: createBook_defs catalogue_defs)
  from h1 t1 e1 h2 t2 e2 show ?thesis by blast
qed

end
